theory Spec2Isabelle
  imports Complex_Main
begin

section \<open>Numbers and library primitives\<close>

text \<open>
  Python floats are modelled as real numbers: every statement below is about the exact
  arithmetic that the floating-point code approximates (no NaN, no rounding error).

  \<^verbatim>\<open>np.clip(a, lo, hi)\<close> is \<open>minimum(maximum(a, lo), hi)\<close>.
\<close>

definition clip :: "real \<Rightarrow> real \<Rightarrow> real \<Rightarrow> real" where
  "clip a lo hi = min (max a lo) hi"

text \<open>
  \<^verbatim>\<open>round(v, 1)\<close> rounds to one decimal place, a tie going to the even digit:
  the nearest integer to \<open>10 * v\<close> (half to even), divided by ten.
\<close>

definition round_half_even :: "real \<Rightarrow> int" where
  "round_half_even v =
     (let f = \<lfloor>v\<rfloor>; r = v - of_int f
      in if r < 1 / 2 then f else if 1 / 2 < r then f + 1 else if even f then f else f + 1)"

definition py_round1 :: "real \<Rightarrow> real" where
  "py_round1 v = of_int (round_half_even (v * 10)) / 10"

section \<open>The controller: \<^verbatim>\<open>fuzzy_controller.py\<close>\<close>

text \<open>
  Class constants of \<^verbatim>\<open>TrafficLightController\<close>.
\<close>

definition MIN_GREEN_TIME :: real where
  "MIN_GREEN_TIME = 15"

definition MAX_GREEN_TIME :: real where
  "MAX_GREEN_TIME = 60"

text \<open>
  A controller object holds its \<^verbatim>\<open>light_id\<close> and the simulator built by
  \<^verbatim>\<open>_setup_fuzzy_system\<close>. The simulator is a scikit-fuzzy
  \<^verbatim>\<open>ControlSystemSimulation\<close>: setting the two inputs, calling
  \<^verbatim>\<open>compute()\<close> and reading \<^verbatim>\<open>output['green']\<close> either yields a number or
  raises. It is kept as a function from the two inputs to \<open>Inr\<close> of the crisp output or
  \<open>Inl\<close> of the exception's message, so that the theorems about
  \<^verbatim>\<open>compute_green_time\<close> hold for whatever the library computes.
\<close>

record controller =
  light_id :: string
  simulator :: "real \<Rightarrow> real \<Rightarrow> string + real"

text \<open>
  \<^verbatim>\<open>compute_green_time\<close>: the result is the returned number together with the lines
  printed (the \<^verbatim>\<open>except\<close> branch prints one diagnostic line). The whole body is
  inside \<^verbatim>\<open>try\<close>, and \<^verbatim>\<open>except Exception\<close> returns \<open>30.0\<close>.
\<close>

definition compute_green_time :: "controller \<Rightarrow> real \<Rightarrow> real \<Rightarrow> real \<times> string list" where
  "compute_green_time self density wait_time =
     (let density' = clip density 0 100;
          wait_time' = clip wait_time 0 120
      in case simulator self density' wait_time' of
           Inr raw_output \<Rightarrow>
             (let clamped_output = clip raw_output MIN_GREEN_TIME MAX_GREEN_TIME
              in (py_round1 clamped_output, []))
         | Inl e \<Rightarrow>
             (30, [''Fuzzy computation error for '' @ light_id self @ '': '' @ e]))"

subsection \<open>The inference engine behind the simulator\<close>

text \<open>
  \<^verbatim>\<open>_setup_fuzzy_system\<close> builds the simulator from scikit-fuzzy
  (\<^verbatim>\<open>fuzz.trapmf\<close>, \<^verbatim>\<open>fuzz.trimf\<close>, \<^verbatim>\<open>ctrl.Rule\<close>,
  \<^verbatim>\<open>ctrl.ControlSystemSimulation\<close>), a library whose code is not part of the
  repository. What the repository fixes is taken from \<^verbatim>\<open>fuzzy_controller.py\<close>: the
  three universes, the control points of the nine membership functions, the nine rules and
  the defuzzification method \<^verbatim>\<open>'centroid'\<close>. What the library computes from them is
  modelled from the specification's description of the inference engine.
\<close>

text \<open>
  Modelled from the spec: the evaluation of a trapezoidal membership function, which the
  code delegates to \<^verbatim>\<open>fuzz.trapmf\<close>. "Trapezoid evaluation with points [a,b,c,d]:
  0 below a, linear ramp a to b, 1 between b and c, linear ramp c to d, 0 above d
  (degenerate a=b or c=d yields a step)."
\<close>

definition trapmf :: "real \<Rightarrow> real \<Rightarrow> real \<Rightarrow> real \<Rightarrow> real \<Rightarrow> real" where
  "trapmf v a b c d =
     (if v < a then 0
      else if v < b then (v - a) / (b - a)
      else if v \<le> c then 1
      else if v < d then (d - v) / (d - c)
      else 0)"

text \<open>
  Modelled from the spec: the evaluation of a triangular membership function, which the
  code delegates to \<^verbatim>\<open>fuzz.trimf\<close>. "Triangle is the special case with ramp apex
  at midpoint": the trapezoid whose two inner points coincide.
\<close>

definition trimf :: "real \<Rightarrow> real \<Rightarrow> real \<Rightarrow> real \<Rightarrow> real" where
  "trimf v a b c = trapmf v a b b c"

text \<open>
  The terms of the three linguistic variables and their membership functions, with the
  control points of \<^verbatim>\<open>_define_membership_functions\<close>.
\<close>

datatype density_term = DensityLow | DensityMedium | DensityHigh

datatype wait_term = WaitShort | WaitMedium | WaitLong

datatype green_term = GreenShort | GreenMedium | GreenLong

fun density_mf :: "density_term \<Rightarrow> real \<Rightarrow> real" where
  "density_mf DensityLow v = trapmf v 0 0 25 45"
| "density_mf DensityMedium v = trimf v 25 50 75"
| "density_mf DensityHigh v = trapmf v 55 75 100 100"

fun wait_mf :: "wait_term \<Rightarrow> real \<Rightarrow> real" where
  "wait_mf WaitShort v = trapmf v 0 0 30 50"
| "wait_mf WaitMedium v = trimf v 30 60 90"
| "wait_mf WaitLong v = trapmf v 70 90 120 120"

fun green_mf :: "green_term \<Rightarrow> real \<Rightarrow> real" where
  "green_mf GreenShort v = trapmf v 5 5 20 35"
| "green_mf GreenMedium v = trimf v 20 40 60"
| "green_mf GreenLong v = trapmf v 45 60 90 90"

text \<open>
  The universe of the output variable: \<^verbatim>\<open>np.arange(5, 91, 1)\<close>.
\<close>

definition green_universe :: "real list" where
  "green_universe = map real_of_int [5..90]"

text \<open>
  The rule base of \<^verbatim>\<open>_create_fuzzy_rules\<close>, in the order of the source: each rule
  is the conjunction of a density term and a wait term, and its consequent green term.
\<close>

definition fuzzy_rules :: "(density_term \<times> wait_term \<times> green_term) list" where
  "fuzzy_rules =
     [(DensityLow, WaitShort, GreenShort),
      (DensityLow, WaitMedium, GreenMedium),
      (DensityLow, WaitLong, GreenMedium),
      (DensityMedium, WaitShort, GreenMedium),
      (DensityMedium, WaitMedium, GreenMedium),
      (DensityMedium, WaitLong, GreenLong),
      (DensityHigh, WaitShort, GreenLong),
      (DensityHigh, WaitMedium, GreenLong),
      (DensityHigh, WaitLong, GreenLong)]"

text \<open>
  Modelled from the spec: rule evaluation, which the code delegates to
  \<^verbatim>\<open>ControlSystemSimulation.compute\<close>. "For each of the 9 rules,
  strength = min(density-term-degree, wait-term-degree)."
\<close>

fun rule_strength :: "real \<Rightarrow> real \<Rightarrow> density_term \<times> wait_term \<times> green_term \<Rightarrow> real" where
  "rule_strength density wait_time (dt, wt, gt) = min (density_mf dt density) (wait_mf wt wait_time)"

text \<open>
  Modelled from the spec: aggregation, which the code delegates to
  \<^verbatim>\<open>ControlSystemSimulation.compute\<close>. "For each output term, clip that term's
  MembershipFunction at the maximum strength among rules mapping to it (rules sharing a
  consequent combine via maximum, not sum); the aggregated curve at each universe point =
  max over the (possibly clipped) contributing term curves." Strengths are never negative,
  so the maxima are taken from 0.
\<close>

definition term_strength :: "real \<Rightarrow> real \<Rightarrow> green_term \<Rightarrow> real" where
  "term_strength density wait_time gt =
     foldr max (map (rule_strength density wait_time)
                    (filter (\<lambda>r. snd (snd r) = gt) fuzzy_rules)) 0"

text \<open>
  Modelled from the spec: the aggregated output curve, which the code leaves to
  \<^verbatim>\<open>ControlSystemSimulation.compute\<close>: "the aggregated curve at each universe point =
  max over the (possibly clipped) contributing term curves".
\<close>

definition aggregated :: "real \<Rightarrow> real \<Rightarrow> real \<Rightarrow> real" where
  "aggregated density wait_time u =
     foldr max (map (\<lambda>gt. min (term_strength density wait_time gt) (green_mf gt u))
                    [GreenShort, GreenMedium, GreenLong]) 0"

text \<open>
  Modelled from the spec: centroid defuzzification, which the code delegates to
  \<^verbatim>\<open>ControlSystemSimulation.compute\<close> with \<^verbatim>\<open>defuzzify_method = 'centroid'\<close>.
  "Crisp output = sum of (universe point times aggregated degree) / sum of (aggregated
  degree) over the discretized green universe. If the denominator is zero (no rule fired),
  fall back to the midpoint of the green universe."
\<close>

definition defuzz_centroid :: "(real \<Rightarrow> real) \<Rightarrow> real" where
  "defuzz_centroid mfx =
     (let denominator = (\<Sum>u\<leftarrow>green_universe. mfx u)
      in if denominator = 0 then (5 + 90) / 2
         else (\<Sum>u\<leftarrow>green_universe. u * mfx u) / denominator)"

text \<open>
  Modelled from the spec: the inference engine as a whole ("fuzzifies crisp inputs,
  evaluates rules, aggregates, defuzzifies via centroid to a crisp value"). In this
  description no step raises.
\<close>

definition infer :: "real \<Rightarrow> real \<Rightarrow> real" where
  "infer density wait_time = defuzz_centroid (aggregated density wait_time)"

text \<open>
  Modelled from the spec: the simulator that \<^verbatim>\<open>_setup_fuzzy_system\<close> obtains from
  \<^verbatim>\<open>ctrl.ControlSystemSimulation\<close>, as the inference engine above, which returns a
  crisp value on every input.
\<close>

definition setup_fuzzy_system :: "real \<Rightarrow> real \<Rightarrow> string + real" where
  "setup_fuzzy_system density wait_time = Inr (infer density wait_time)"

text \<open>
  The constructor: \<^verbatim>\<open>__init__\<close> stores the \<^verbatim>\<open>light_id\<close> and calls
  \<^verbatim>\<open>_setup_fuzzy_system\<close>, which does not read it.
\<close>

definition TrafficLightController :: "string \<Rightarrow> controller" where
  "TrafficLightController lid = \<lparr>light_id = lid, simulator = setup_fuzzy_system\<rparr>"

section \<open>The simulation: \<^verbatim>\<open>traffic_simulation.py\<close>\<close>

text \<open>
  The strings that the code uses as tags (\<^verbatim>\<open>'horizontal'\<close>, \<^verbatim>\<open>'east'\<close>,
  \<^verbatim>\<open>'GREEN'\<close>, ...) are the constructors of three datatypes. Where the code tests one
  tag and treats everything else in its \<^verbatim>\<open>else\<close> branch, the model does the same.
\<close>

datatype direction = Horizontal | Vertical

datatype lane = East | West | North | South

datatype light = RED | YELLOW | GREEN

subsection \<open>Class \<^verbatim>\<open>Car\<close>\<close>

definition MIN_SPACING :: real where
  "MIN_SPACING = 40"

definition STOP_LINE_OFFSET :: real where
  "STOP_LINE_OFFSET = 50"

definition MAX_SPEED :: real where
  "MAX_SPEED = 5 / 2"

text \<open>
  The attributes of a \<^verbatim>\<open>Car\<close> object; \<open>car_id\<close> is the attribute \<^verbatim>\<open>id\<close>.
\<close>

record car =
  lane :: lane
  car_id :: int
  direction :: direction
  speed :: real
  waiting_time :: real
  passed_intersection :: bool
  color :: "nat \<times> nat \<times> nat"
  x :: real
  y :: real
  max_speed :: real

text \<open>
  \<^verbatim>\<open>_set_initial_position\<close>, as the triple \<open>(x, y, max_speed)\<close> it assigns; the
  random \<^verbatim>\<open>spawn_offset\<close> is an argument.
\<close>

definition set_initial_position :: "lane \<Rightarrow> direction \<Rightarrow> int \<Rightarrow> real \<times> real \<times> real" where
  "set_initial_position la dir spawn_offset =
     (if dir = Horizontal then
        (if la = East then (- 100 - of_int spawn_offset, 340, MAX_SPEED)
         else (1100 + of_int spawn_offset, 360, - MAX_SPEED))
      else
        (if la = North then (460, - 100 - of_int spawn_offset, MAX_SPEED)
         else (490, 800 + of_int spawn_offset, - MAX_SPEED)))"

text \<open>
  The constructor \<^verbatim>\<open>Car(lane, car_id, direction)\<close>; the two random draws of
  \<^verbatim>\<open>__init__\<close> (the colour and the spawn offset) are arguments.
\<close>

definition Car :: "lane \<Rightarrow> int \<Rightarrow> direction \<Rightarrow> nat \<times> nat \<times> nat \<Rightarrow> int \<Rightarrow> car" where
  "Car la cid dir col spawn_offset =
     (case set_initial_position la dir spawn_offset of
        (px, py, ms) \<Rightarrow>
          \<lparr>lane = la, car_id = cid, direction = dir, speed = 0, waiting_time = 0,
           passed_intersection = False, color = col, x = px, y = py, max_speed = ms\<rparr>)"

definition get_stop_line_position :: "car \<Rightarrow> real" where
  "get_stop_line_position self =
     (if direction self = Horizontal then
        (if max_speed self > 0 then 400 - STOP_LINE_OFFSET else 550 + STOP_LINE_OFFSET)
      else
        (if max_speed self > 0 then 300 - STOP_LINE_OFFSET else 400 + STOP_LINE_OFFSET))"

text \<open>
  \<^verbatim>\<open>is_too_close_to_car_ahead\<close>: the loop over the list that is passed in, with
  its \<^verbatim>\<open>continue\<close> and its early \<^verbatim>\<open>return True\<close>.
\<close>

fun is_too_close_to_car_ahead :: "car \<Rightarrow> car list \<Rightarrow> bool" where
  "is_too_close_to_car_ahead self [] = False"
| "is_too_close_to_car_ahead self (other # others) =
     (if car_id other = car_id self \<or> direction other \<noteq> direction self
      then is_too_close_to_car_ahead self others
      else if direction self = Horizontal then
        (let same_lane = (\<bar>y other - y self\<bar> < 10);
             ahead = (if max_speed self > 0
                      then x other > x self \<and> x other - x self < MIN_SPACING
                      else x other < x self \<and> x self - x other < MIN_SPACING)
         in if same_lane \<and> ahead then True else is_too_close_to_car_ahead self others)
      else
        (let same_lane = (\<bar>x other - x self\<bar> < 10);
             ahead = (if max_speed self > 0
                      then y other > y self \<and> y other - y self < MIN_SPACING
                      else y other < y self \<and> y self - y other < MIN_SPACING)
         in if same_lane \<and> ahead then True else is_too_close_to_car_ahead self others))"

definition is_in_intersection :: "car \<Rightarrow> bool" where
  "is_in_intersection self = (400 \<le> x self \<and> x self \<le> 550 \<and> 300 \<le> y self \<and> y self \<le> 400)"

definition should_stop_for_light :: "car \<Rightarrow> light \<Rightarrow> bool" where
  "should_stop_for_light self lt =
     (if lt = GREEN then False
      else let stop_line = get_stop_line_position self
           in if direction self = Horizontal then
                (if max_speed self > 0 then stop_line \<le> x self \<and> x self \<le> 400
                 else 550 \<le> x self \<and> x self \<le> stop_line)
              else
                (if max_speed self > 0 then stop_line \<le> y self \<and> y self \<le> 300
                 else 400 \<le> y self \<and> y self \<le> stop_line))"

text \<open>
  \<^verbatim>\<open>Car.update(light_state, cars)\<close>: the object is mutated in place, the model returns
  the new value. The tick duration added to \<^verbatim>\<open>waiting_time\<close> is \<open>0.1\<close>.
\<close>

definition update :: "car \<Rightarrow> light \<Rightarrow> car list \<Rightarrow> car" where
  "update self lt others =
     (let self1 = (if \<not> passed_intersection self \<and> is_in_intersection self
                   then self\<lparr>passed_intersection := True\<rparr> else self);
          should_stop = (should_stop_for_light self1 lt \<or> is_too_close_to_car_ahead self1 others);
          self2 = (if should_stop
                   then (if \<not> passed_intersection self1
                         then self1\<lparr>speed := 0, waiting_time := waiting_time self1 + 1 / 10\<rparr>
                         else self1\<lparr>speed := 0\<rparr>)
                   else self1\<lparr>speed := max_speed self1\<rparr>)
      in if direction self2 = Horizontal then self2\<lparr>x := x self2 + speed self2\<rparr>
         else self2\<lparr>y := y self2 + speed self2\<rparr>)"

definition is_off_screen :: "car \<Rightarrow> bool" where
  "is_off_screen self =
     (let buffer = 200
      in if direction self = Horizontal then x self < - buffer \<or> x self > 1000 + buffer
         else y self < - buffer \<or> y self > 700 + buffer)"

subsection \<open>Class \<^verbatim>\<open>TrafficLight\<close>\<close>

text \<open>
  Of the display object only the two attributes that \<^verbatim>\<open>update\<close> writes are kept; its
  position on the canvas is used for drawing only.
\<close>

record traffic_light =
  state :: light
  time_remaining :: real

definition traffic_light_update :: "traffic_light \<Rightarrow> light \<Rightarrow> real \<Rightarrow> traffic_light" where
  "traffic_light_update self st tr = self\<lparr>state := st, time_remaining := max 0 tr\<rparr>"

subsection \<open>Class \<^verbatim>\<open>TrafficSimulation\<close>\<close>

text \<open>
  What the simulation prints, with the fields of the formatted lines kept as values.
\<close>

datatype printed =
    Started
  | SpawnRate direction real
  | ControllerError string
  | GreenReport direction nat real real real

text \<open>
  The state of a \<^verbatim>\<open>TrafficSimulation\<close> object (window, clock, fonts and colours left
  out). The dictionaries keyed by direction are functions on \<open>direction\<close>;
  \<open>stdout\<close> collects the printed lines.
\<close>

record simulation =
  controller_h :: controller
  controller_v :: controller
  lights :: "direction \<Rightarrow> traffic_light"
  cars :: "car list"
  next_car_id :: int
  light_state :: "direction \<Rightarrow> light"
  light_timer :: real
  current_green_duration :: real
  yellow_duration :: real
  spawn_rates :: "direction \<Rightarrow> real"
  last_spawn :: "direction \<Rightarrow> int"
  stdout :: "printed list"

text \<open>
  \<^verbatim>\<open>__init__\<close>; the two spawn rates drawn by \<^verbatim>\<open>random.uniform\<close> are arguments.
\<close>

definition TrafficSimulation :: "real \<Rightarrow> real \<Rightarrow> simulation" where
  "TrafficSimulation rate_h rate_v =
     \<lparr>controller_h = TrafficLightController ''horizontal'',
      controller_v = TrafficLightController ''vertical'',
      lights = (\<lambda>dir. \<lparr>state = RED, time_remaining = 0\<rparr>),
      cars = [],
      next_car_id = 0,
      light_state = (\<lambda>dir. if dir = Horizontal then GREEN else RED),
      light_timer = 0,
      current_green_duration = 30,
      yellow_duration = 4,
      spawn_rates = (\<lambda>dir. if dir = Horizontal then rate_h else rate_v),
      last_spawn = (\<lambda>dir. 0),
      stdout = [Started, SpawnRate Horizontal rate_h, SpawnRate Vertical rate_v]\<rparr>"

text \<open>
  \<^verbatim>\<open>_is_spawn_blocked\<close>: the loop over \<^verbatim>\<open>self.cars\<close>.
\<close>

fun is_spawn_blocked :: "car list \<Rightarrow> car \<Rightarrow> bool" where
  "is_spawn_blocked [] new_car = False"
| "is_spawn_blocked (c # cs) new_car =
     (if direction c \<noteq> direction new_car then is_spawn_blocked cs new_car
      else let distance = (if direction new_car = Horizontal then \<bar>x c - x new_car\<bar>
                           else \<bar>y c - y new_car\<bar>)
           in if distance < MIN_SPACING * 2 then True else is_spawn_blocked cs new_car)"

text \<open>
  The random draws that one pass of the loop of \<^verbatim>\<open>generate_traffic\<close> may consume:
  \<^verbatim>\<open>random.random()\<close>, the \<^verbatim>\<open>random.choice\<close> between the two lanes of the direction
  (\<open>False\<close> for the first, \<open>True\<close> for the second), and the colour and spawn offset
  drawn in the constructor of \<^verbatim>\<open>Car\<close>.
\<close>

record draws =
  roll :: real
  second_lane :: bool
  colour_drawn :: "nat \<times> nat \<times> nat"
  offset_drawn :: int

text \<open>
  The body of the loop of \<^verbatim>\<open>generate_traffic\<close> for one direction, and the loop over
  the two directions; \<open>current_time\<close> is \<^verbatim>\<open>pygame.time.get_ticks()\<close>.
\<close>

definition generate_traffic_for :: "simulation \<Rightarrow> int \<Rightarrow> direction \<Rightarrow> draws \<Rightarrow> simulation" where
  "generate_traffic_for self current_time dir dr =
     (let time_since_last = current_time - last_spawn self dir
      in if roll dr < spawn_rates self dir \<and> time_since_last > 500 then
           (let la = (if dir = Horizontal then (if second_lane dr then West else East)
                      else (if second_lane dr then South else North));
                new_car = Car la (next_car_id self) dir (colour_drawn dr) (offset_drawn dr)
            in if \<not> is_spawn_blocked (cars self) new_car
               then self\<lparr>cars := cars self @ [new_car],
                         next_car_id := next_car_id self + 1,
                         last_spawn := (last_spawn self)(dir := current_time)\<rparr>
               else self)
         else self)"

definition generate_traffic :: "simulation \<Rightarrow> int \<Rightarrow> draws \<Rightarrow> draws \<Rightarrow> simulation" where
  "generate_traffic self current_time dr_h dr_v =
     generate_traffic_for (generate_traffic_for self current_time Horizontal dr_h)
       current_time Vertical dr_v"

text \<open>
  \<^verbatim>\<open>_calculate_green_time\<close>. The controller is called, and the report line printed, only
  in the branch where \<^verbatim>\<open>direction_cars\<close> is not empty.
\<close>

definition calculate_green_time :: "simulation \<Rightarrow> direction \<Rightarrow> simulation" where
  "calculate_green_time self dir =
     (let direction_cars = filter (\<lambda>c. direction c = dir \<and> \<not> passed_intersection c) (cars self)
      in if direction_cars \<noteq> [] then
           (let density = min 100 (real (length direction_cars) * 10);
                avg_wait = sum_list (map waiting_time direction_cars) / real (length direction_cars);
                ctrl = (if dir = Horizontal then controller_h self else controller_v self);
                result = compute_green_time ctrl density avg_wait
            in self\<lparr>current_green_duration := fst result,
                      stdout := stdout self @ map ControllerError (snd result) @
                                [GreenReport dir (length direction_cars) density avg_wait (fst result)]\<rparr>)
         else self\<lparr>current_green_duration := 20\<rparr>)"

text \<open>
  \<^verbatim>\<open>update_lights\<close>: the timer advances by the tick duration, both displays are
  refreshed from the state before the transition, then the first transition of the
  \<^verbatim>\<open>if\<close>/\<^verbatim>\<open>elif\<close> chain whose condition holds is taken.
\<close>

definition update_lights :: "simulation \<Rightarrow> simulation" where
  "update_lights self0 =
     (let self1 = self0\<lparr>light_timer := light_timer self0 + 1 / 10\<rparr>;
          self2 = self1\<lparr>lights := (\<lambda>dir.
                    let tr = (if light_state self1 dir = GREEN
                              then current_green_duration self1 - light_timer self1
                              else if light_state self1 dir = YELLOW
                              then yellow_duration self1 - light_timer self1
                              else 0)
                    in traffic_light_update (lights self1 dir) (light_state self1 dir) (max 0 tr))\<rparr>
      in if light_state self2 Horizontal = GREEN \<and> light_timer self2 \<ge> current_green_duration self2
         then self2\<lparr>light_state := (light_state self2)(Horizontal := YELLOW), light_timer := 0\<rparr>
         else if light_state self2 Horizontal = YELLOW \<and> light_timer self2 \<ge> yellow_duration self2
         then calculate_green_time
                (self2\<lparr>light_state := (light_state self2)(Horizontal := RED, Vertical := GREEN),
                       light_timer := 0\<rparr>) Vertical
         else if light_state self2 Vertical = GREEN \<and> light_timer self2 \<ge> current_green_duration self2
         then self2\<lparr>light_state := (light_state self2)(Vertical := YELLOW), light_timer := 0\<rparr>
         else if light_state self2 Vertical = YELLOW \<and> light_timer self2 \<ge> yellow_duration self2
         then calculate_green_time
                (self2\<lparr>light_state := (light_state self2)(Vertical := RED, Horizontal := GREEN),
                       light_timer := 0\<rparr>) Horizontal
         else self2)"

text \<open>
  \<^verbatim>\<open>update_cars\<close>. The loop runs over a copy of the list, but every \<^verbatim>\<open>Car\<close> is
  an object shared between the copy and \<^verbatim>\<open>self.cars\<close>, it is mutated in place, and
  \<^verbatim>\<open>car.update\<close> is handed \<^verbatim>\<open>self.cars\<close> itself. When a vehicle is processed,
  \<^verbatim>\<open>self.cars\<close> therefore holds the vehicles before it as already updated (without
  those removed as off screen), then the vehicle itself and the vehicles after it as they
  were. \<open>update_cars_from ls updated todo\<close> is the loop with \<open>updated\<close> the part of
  \<^verbatim>\<open>self.cars\<close> already processed and \<open>todo\<close> the rest of the copy.
\<close>

fun update_cars_from :: "(direction \<Rightarrow> light) \<Rightarrow> car list \<Rightarrow> car list \<Rightarrow> car list" where
  "update_cars_from ls updated [] = updated"
| "update_cars_from ls updated (c # todo) =
     (let c' = update c (ls (direction c)) (updated @ c # todo)
      in if is_off_screen c' then update_cars_from ls updated todo
         else update_cars_from ls (updated @ [c']) todo)"

definition update_cars :: "simulation \<Rightarrow> simulation" where
  "update_cars self = self\<lparr>cars := update_cars_from (light_state self) [] (cars self)\<rparr>"

text \<open>
  The simulation steps of the loop of \<^verbatim>\<open>run\<close> (drawing left out), and a run of the
  simulation as the list of the steps taken.
\<close>

datatype step = GenerateTraffic int draws draws | UpdateLights | UpdateCars

fun do_step :: "simulation \<Rightarrow> step \<Rightarrow> simulation" where
  "do_step self (GenerateTraffic current_time dr_h dr_v) = generate_traffic self current_time dr_h dr_v"
| "do_step self UpdateLights = update_lights self"
| "do_step self UpdateCars = update_cars self"

definition run :: "simulation \<Rightarrow> step list \<Rightarrow> simulation" where
  "run self steps = foldl do_step self steps"

text \<open>
  One iteration of the loop of \<^verbatim>\<open>run\<close>.
\<close>

definition tick :: "simulation \<Rightarrow> int \<Rightarrow> draws \<Rightarrow> draws \<Rightarrow> simulation" where
  "tick self current_time dr_h dr_v =
     run self [GenerateTraffic current_time dr_h dr_v, UpdateLights, UpdateCars]"

subsection \<open>Notions used to state the properties\<close>

text \<open>
  The phase lock of the two axes: one axis is \<open>GREEN\<close> or \<open>YELLOW\<close> while the other
  is \<open>RED\<close>.
\<close>

definition exclusive :: "(direction \<Rightarrow> light) \<Rightarrow> bool" where
  "exclusive ls =
     ((ls Horizontal = GREEN \<or> ls Horizontal = YELLOW) \<and> ls Vertical = RED \<or>
      ls Horizontal = RED \<and> (ls Vertical = GREEN \<or> ls Vertical = YELLOW))"

text \<open>
  The life of one vehicle over successive ticks: at each tick \<^verbatim>\<open>update\<close> is called
  with the light of that tick and the list of vehicles of that tick.
\<close>

fun car_run :: "car \<Rightarrow> (light \<times> car list) list \<Rightarrow> car" where
  "car_run self [] = self"
| "car_run self ((lt, others) # ticks) = car_run (update self lt others) ticks"

text \<open>
  The reference update of the specification, written from its words and not from the
  code: "all vehicles check neighbors against positions prior to this tick's update", then
  the vehicles that left the screen are pruned.
\<close>

definition reference_update_cars :: "(direction \<Rightarrow> light) \<Rightarrow> car list \<Rightarrow> car list" where
  "reference_update_cars ls cs =
     filter (\<lambda>c. \<not> is_off_screen c) (map (\<lambda>c. update c (ls (direction c)) cs) cs)"

subsection \<open>Example states\<close>

text \<open>
  A simulation at the last tick of a horizontal yellow phase, holding the given vehicles:
  the next call of \<^verbatim>\<open>update_lights\<close> turns the vertical light green.
\<close>

definition yellow_phase_end :: "car list \<Rightarrow> simulation" where
  "yellow_phase_end cs =
     (TrafficSimulation (1 / 20) (1 / 10))
       \<lparr>cars := cs,
        light_state := (\<lambda>dir. if dir = Horizontal then YELLOW else RED),
        light_timer := 39 / 10\<rparr>"

text \<open>
  Four vehicles: two vertical ones still before the intersection (waiting times 3 and 5),
  a vertical one that has passed it, and a horizontal one.
\<close>

definition four_cars :: "car list" where
  "four_cars =
     [(Car North 0 Vertical (255, 100, 100) 10)\<lparr>waiting_time := 3\<rparr>,
      (Car South 1 Vertical (100, 255, 100) 20)\<lparr>waiting_time := 5\<rparr>,
      (Car North 2 Vertical (100, 100, 255) 0)\<lparr>y := 500, passed_intersection := True,
                                                  waiting_time := 50\<rparr>,
      (Car East 3 Horizontal (255, 255, 100) 0)\<lparr>waiting_time := 70\<rparr>]"

text \<open>
  An eastbound vehicle standing between its stop line and the intersection, and the same
  vehicle inside the intersection after it has been marked as passed.
\<close>

definition car_at_stop_line :: car where
  "car_at_stop_line = (Car East 0 Horizontal (255, 100, 100) 0)\<lparr>x := 360\<rparr>"

definition car_passed :: car where
  "car_passed = (Car East 0 Horizontal (255, 100, 100) 0)
                  \<lparr>x := 450, passed_intersection := True, waiting_time := 7\<rparr>"

text \<open>
  The vehicle that one pass of the loop of \<^verbatim>\<open>generate_traffic\<close> constructs for a
  direction from the random draws.
\<close>

definition new_car_for :: "simulation \<Rightarrow> direction \<Rightarrow> draws \<Rightarrow> car" where
  "new_car_for self dir dr =
     Car (if dir = Horizontal then (if second_lane dr then West else East)
          else (if second_lane dr then South else North))
       (next_car_id self) dir (colour_drawn dr) (offset_drawn dr)"

text \<open>
  A westbound vehicle that has crossed the intersection and reached the left edge of the
  road, where eastbound vehicles are spawned; and the draws of an eastbound spawn attempt
  with spawn offset 0.
\<close>

definition westbound_near_left_edge :: car where
  "westbound_near_left_edge =
     (Car West 0 Horizontal (255, 100, 100) 0)
       \<lparr>x := - 100, speed := - MAX_SPEED, passed_intersection := True\<rparr>"

definition eastbound_draws :: draws where
  "eastbound_draws =
     \<lparr>roll = 1 / 100, second_lane = False, colour_drawn = (100, 255, 100), offset_drawn = 0\<rparr>"

text \<open>
  Two eastbound vehicles in the same lane, the follower 39 units behind the leader, and a
  simulation holding given vehicles in its initial light state (horizontal green).
\<close>

definition leader :: car where
  "leader = (Car East 0 Horizontal (255, 100, 100) 0)\<lparr>x := 300\<rparr>"

definition follower :: car where
  "follower = (Car East 1 Horizontal (100, 255, 100) 0)\<lparr>x := 261\<rparr>"

definition horizontal_green :: "car list \<Rightarrow> simulation" where
  "horizontal_green cs = (TrafficSimulation (1 / 20) (1 / 10))\<lparr>cars := cs\<rparr>"

text \<open>
  One pass of the loop of \<^verbatim>\<open>update_cars\<close>, told by the position \<open>i\<close> of the
  vehicle in the list \<open>cs\<close> the tick started with: \<open>updated\<close> holds the vehicles before
  position \<open>i\<close> as updated in this tick, \<open>drop i cs\<close> the vehicles from position
  \<open>i\<close> on as they were before it.
\<close>

definition live_step :: "(direction \<Rightarrow> light) \<Rightarrow> car list \<Rightarrow> car list \<Rightarrow> nat \<Rightarrow> car list" where
  "live_step ls cs updated i =
     (let c' = update (cs ! i) (ls (direction (cs ! i))) (updated @ drop i cs)
      in if is_off_screen c' then updated else updated @ [c'])"

section \<open>Rounding and clamping\<close>

lemma clip_bounds: "lo \<le> hi \<Longrightarrow> lo \<le> clip a lo hi \<and> clip a lo hi \<le> hi"
  by (simp add: clip_def)

lemma clip_mono: "a \<le> b \<Longrightarrow> clip a lo hi \<le> clip b lo hi"
  by (simp add: clip_def min_def max_def)

lemma round_half_even_lower:
  assumes "of_int k \<le> v"
  shows "k \<le> round_half_even v"
proof -
  have "k \<le> \<lfloor>v\<rfloor>" using assms by (simp add: le_floor_iff)
  then show ?thesis by (simp add: round_half_even_def Let_def)
qed

lemma round_half_even_upper:
  assumes "v \<le> of_int k"
  shows "round_half_even v \<le> k"
proof (cases "v = of_int \<lfloor>v\<rfloor>")
  case True
  then have "v - of_int \<lfloor>v\<rfloor> = 0" by simp
  moreover have "\<lfloor>v\<rfloor> \<le> k" using assms by (simp add: floor_le_iff)
  ultimately show ?thesis by (simp add: round_half_even_def Let_def)
next
  case False
  have "of_int \<lfloor>v\<rfloor> \<le> v" by simp
  with False have "of_int \<lfloor>v\<rfloor> < v" by linarith
  with assms have "(of_int \<lfloor>v\<rfloor> :: real) < of_int k" by linarith
  then have "\<lfloor>v\<rfloor> < k" by simp
  then show ?thesis by (simp add: round_half_even_def Let_def)
qed

lemma round_half_even_mono:
  assumes "v \<le> w"
  shows "round_half_even v \<le> round_half_even w"
proof (cases "\<lfloor>v\<rfloor> = \<lfloor>w\<rfloor>")
  case True
  then have "v - of_int \<lfloor>v\<rfloor> \<le> w - of_int \<lfloor>w\<rfloor>" using assms by simp
  with True show ?thesis by (auto simp add: round_half_even_def Let_def)
next
  case False
  have "\<lfloor>v\<rfloor> \<le> \<lfloor>w\<rfloor>" using assms by (rule floor_mono)
  with False have lt: "\<lfloor>v\<rfloor> + 1 \<le> \<lfloor>w\<rfloor>" by simp
  have "round_half_even v \<le> \<lfloor>v\<rfloor> + 1" by (simp add: round_half_even_def Let_def)
  moreover have "\<lfloor>w\<rfloor> \<le> round_half_even w" by (simp add: round_half_even_def Let_def)
  ultimately show ?thesis using lt by linarith
qed

lemma py_round1_mono: "a \<le> b \<Longrightarrow> py_round1 a \<le> py_round1 b"
  by (simp add: py_round1_def divide_right_mono round_half_even_mono)

lemma py_round1_lower:
  assumes "of_int k \<le> v"
  shows "of_int k \<le> py_round1 v"
proof -
  have "of_int (k * 10) \<le> v * 10" using assms by simp
  then have "k * 10 \<le> round_half_even (v * 10)" by (rule round_half_even_lower)
  then have "(of_int (k * 10) :: real) \<le> of_int (round_half_even (v * 10))"
    by (simp only: of_int_le_iff)
  then show ?thesis by (simp add: py_round1_def)
qed

lemma py_round1_upper:
  assumes "v \<le> of_int k"
  shows "py_round1 v \<le> of_int k"
proof -
  have "v * 10 \<le> of_int (k * 10)" using assms by simp
  then have "round_half_even (v * 10) \<le> k * 10" by (rule round_half_even_upper)
  then have "(of_int (round_half_even (v * 10)) :: real) \<le> of_int (k * 10)"
    by (simp only: of_int_le_iff)
  then show ?thesis by (simp add: py_round1_def)
qed

lemma clamp_round_bounds:
  "15 \<le> py_round1 (clip raw MIN_GREEN_TIME MAX_GREEN_TIME) \<and>
   py_round1 (clip raw MIN_GREEN_TIME MAX_GREEN_TIME) \<le> 60"
proof -
  have b: "15 \<le> clip raw MIN_GREEN_TIME MAX_GREEN_TIME \<and> clip raw MIN_GREEN_TIME MAX_GREEN_TIME \<le> 60"
    using clip_bounds [of MIN_GREEN_TIME MAX_GREEN_TIME raw]
    by (simp add: MIN_GREEN_TIME_def MAX_GREEN_TIME_def)
  have "of_int 15 \<le> py_round1 (clip raw MIN_GREEN_TIME MAX_GREEN_TIME)"
    by (rule py_round1_lower) (use b in simp)
  moreover have "py_round1 (clip raw MIN_GREEN_TIME MAX_GREEN_TIME) \<le> of_int 60"
    by (rule py_round1_upper) (use b in simp)
  ultimately show ?thesis by simp
qed

lemma clamp_round_mono:
  "a \<le> b \<Longrightarrow>
   py_round1 (clip a MIN_GREEN_TIME MAX_GREEN_TIME) \<le> py_round1 (clip b MIN_GREEN_TIME MAX_GREEN_TIME)"
  by (simp add: py_round1_mono clip_mono)

lemma clamp_round_saturates:
  assumes "60 \<le> raw"
  shows "py_round1 (clip raw MIN_GREEN_TIME MAX_GREEN_TIME) = 60"
proof -
  have "clip raw MIN_GREEN_TIME MAX_GREEN_TIME = 60"
    using assms by (simp add: clip_def MIN_GREEN_TIME_def MAX_GREEN_TIME_def)
  then show ?thesis by (simp add: py_round1_def round_half_even_def Let_def)
qed

section \<open>Properties of \<^verbatim>\<open>compute_green_time\<close>\<close>

text \<open>
  Claim C1. For every controller (whatever its simulator returns or raises) and every pair
  of inputs, also outside \<open>[0,100]\<close> and \<open>[0,120]\<close>, the value returned by
  \<^verbatim>\<open>compute_green_time\<close> lies between \<open>MIN_GREEN_TIME = 15\<close> and
  \<open>MAX_GREEN_TIME = 60\<close>: on the normal path by the clamp followed by the rounding, on
  the fallback path because the fallback is \<open>30\<close>.
\<close>

theorem compute_green_time_range:
  "MIN_GREEN_TIME \<le> fst (compute_green_time self density wait_time) \<and>
   fst (compute_green_time self density wait_time) \<le> MAX_GREEN_TIME \<and>
   MIN_GREEN_TIME = 15 \<and> MAX_GREEN_TIME = 60"
proof (cases "simulator self (clip density 0 100) (clip wait_time 0 120)")
  case (Inl e)
  then show ?thesis
    by (simp add: compute_green_time_def Let_def MIN_GREEN_TIME_def MAX_GREEN_TIME_def)
next
  case (Inr raw)
  have "fst (compute_green_time self density wait_time) =
        py_round1 (clip raw MIN_GREEN_TIME MAX_GREEN_TIME)"
    using Inr by (simp add: compute_green_time_def Let_def)
  with clamp_round_bounds [of raw] show ?thesis
    by (simp add: MIN_GREEN_TIME_def MAX_GREEN_TIME_def)
qed

theorem compute_green_time_range_witness:
  "MIN_GREEN_TIME \<le> fst (compute_green_time \<lparr>light_id = ''demo'', simulator = (\<lambda>d w. Inr (d + w))\<rparr> 250 (-3)) \<and>
   fst (compute_green_time \<lparr>light_id = ''demo'', simulator = (\<lambda>d w. Inr (d + w))\<rparr> 250 (-3)) \<le> MAX_GREEN_TIME \<and>
   fst (compute_green_time \<lparr>light_id = ''demo'', simulator = (\<lambda>d w. Inr (d + w))\<rparr> 250 (-3)) = 60 \<and>
   fst (compute_green_time \<lparr>light_id = ''demo'', simulator = (\<lambda>d w. Inl ''boom'')\<rparr> 250 (-3)) = 30"
  using compute_green_time_range [of "\<lparr>light_id = ''demo'', simulator = (\<lambda>d w. Inr (d + w))\<rparr>" 250 "-3"]
  by (simp add: compute_green_time_def Let_def clip_def MIN_GREEN_TIME_def MAX_GREEN_TIME_def
      py_round1_def round_half_even_def)

text \<open>
  Claim C8. If the simulator raises on the clamped inputs (fuzzification, rule evaluation
  and defuzzification all happen inside it), the call returns exactly \<open>30.0\<close> and
  prints one diagnostic line; the exception does not reach the caller (the result of
  \<^verbatim>\<open>compute_green_time\<close> is a plain value, never an error).
\<close>

theorem compute_green_time_fallback:
  assumes "simulator self (clip density 0 100) (clip wait_time 0 120) = Inl e"
  shows "compute_green_time self density wait_time =
           (30, [''Fuzzy computation error for '' @ light_id self @ '': '' @ e])"
  using assms by (simp add: compute_green_time_def Let_def)

theorem compute_green_time_fallback_witness:
  "simulator \<lparr>light_id = ''vertical'', simulator = (\<lambda>d w. if d = 0 then Inl ''Total area is zero'' else Inr 40)\<rparr>
       (clip (-5) 0 100) (clip 7 0 120) = Inl ''Total area is zero'' \<and>
   compute_green_time \<lparr>light_id = ''vertical'', simulator = (\<lambda>d w. if d = 0 then Inl ''Total area is zero'' else Inr 40)\<rparr> (-5) 7 =
     (30, [''Fuzzy computation error for vertical: Total area is zero''])"
proof -
  have h: "simulator \<lparr>light_id = ''vertical'', simulator = (\<lambda>d w. if d = 0 then Inl ''Total area is zero'' else Inr 40)\<rparr>
       (clip (-5) 0 100) (clip 7 0 120) = Inl ''Total area is zero''"
    by (simp add: clip_def)
  show ?thesis using h compute_green_time_fallback [OF h] by simp
qed

text \<open>
  Claim C9. The \<^verbatim>\<open>light_id\<close> of a controller has no influence on the value that
  \<^verbatim>\<open>compute_green_time\<close> returns: changing it leaves the value unchanged, two
  controllers constructed with any two identifiers return the same value on every input
  pair, and so do the horizontal and the vertical controller of the simulation. The
  identifier appears only in the line printed on the fallback path.
\<close>

theorem light_id_irrelevant:
  "fst (compute_green_time (self\<lparr>light_id := lid\<rparr>) density wait_time) =
     fst (compute_green_time self density wait_time) \<and>
   fst (compute_green_time (TrafficLightController a) density wait_time) =
     fst (compute_green_time (TrafficLightController b) density wait_time) \<and>
   fst (compute_green_time (controller_h (TrafficSimulation rate_h rate_v)) density wait_time) =
     fst (compute_green_time (controller_v (TrafficSimulation rate_h rate_v)) density wait_time)"
  by (simp add: compute_green_time_def TrafficLightController_def TrafficSimulation_def Let_def
      split: sum.splits)

theorem light_id_irrelevant_witness:
  "fst (compute_green_time (TrafficLightController ''horizontal'') 50 60) =
     fst (compute_green_time (TrafficLightController ''vertical'') 50 60) \<and>
   light_id (TrafficLightController ''horizontal'') \<noteq> light_id (TrafficLightController ''vertical'')"
  using light_id_irrelevant [of undefined undefined 50 60 "''horizontal''" "''vertical''"]
  by (simp add: TrafficLightController_def)

section \<open>The light state machine\<close>

lemma light_state_calculate_green_time [simp]:
  "light_state (calculate_green_time self dir) = light_state self"
  by (simp add: calculate_green_time_def Let_def)

lemma light_state_generate_traffic_for:
  "light_state (generate_traffic_for self current_time dir dr) = light_state self"
  by (simp add: generate_traffic_for_def Let_def)

lemma light_state_generate_traffic:
  "light_state (generate_traffic self current_time dr_h dr_v) = light_state self"
  by (simp add: generate_traffic_def light_state_generate_traffic_for)

lemma light_state_update_cars: "light_state (update_cars self) = light_state self"
  by (simp add: update_cars_def)

lemma exclusive_update_lights:
  assumes "exclusive (light_state self)"
  shows "exclusive (light_state (update_lights self))"
  using assms by (auto simp add: update_lights_def Let_def exclusive_def)

lemma exclusive_do_step:
  "exclusive (light_state self) \<Longrightarrow> exclusive (light_state (do_step self st))"
  by (cases st)
    (simp_all add: light_state_generate_traffic light_state_update_cars exclusive_update_lights)

lemma exclusive_foldl:
  "exclusive (light_state self) \<Longrightarrow> exclusive (light_state (foldl do_step self steps))"
  by (induction steps arbitrary: self) (simp_all add: exclusive_do_step)

lemma exclusive_init: "exclusive (light_state (TrafficSimulation rate_h rate_v))"
  by (simp add: exclusive_def TrafficSimulation_def)

text \<open>
  Claim C2. In every state that the simulation reaches from its initial state
  (horizontal \<open>GREEN\<close>, vertical \<open>RED\<close>) by any sequence of its steps
  (\<^verbatim>\<open>generate_traffic\<close>, \<^verbatim>\<open>update_lights\<close>, \<^verbatim>\<open>update_cars\<close>, with any random
  draws), exactly one axis is \<open>GREEN\<close> or \<open>YELLOW\<close> while the other is \<open>RED\<close>:
  the two are never both \<open>GREEN\<close>, never both \<open>YELLOW\<close>, and never one
  \<open>GREEN\<close> with the other \<open>YELLOW\<close>.
\<close>

theorem lights_mutually_exclusive:
  "exclusive (light_state (run (TrafficSimulation rate_h rate_v) steps)) \<and>
   \<not> (light_state (run (TrafficSimulation rate_h rate_v) steps) Horizontal = GREEN \<and>
      light_state (run (TrafficSimulation rate_h rate_v) steps) Vertical = GREEN) \<and>
   \<not> (light_state (run (TrafficSimulation rate_h rate_v) steps) Horizontal = YELLOW \<and>
      light_state (run (TrafficSimulation rate_h rate_v) steps) Vertical = YELLOW) \<and>
   \<not> (light_state (run (TrafficSimulation rate_h rate_v) steps) Horizontal = GREEN \<and>
      light_state (run (TrafficSimulation rate_h rate_v) steps) Vertical = YELLOW) \<and>
   \<not> (light_state (run (TrafficSimulation rate_h rate_v) steps) Horizontal = YELLOW \<and>
      light_state (run (TrafficSimulation rate_h rate_v) steps) Vertical = GREEN)"
proof -
  have "exclusive (light_state (run (TrafficSimulation rate_h rate_v) steps))"
    unfolding run_def by (rule exclusive_foldl) (rule exclusive_init)
  then show ?thesis by (auto simp add: exclusive_def)
qed

lemma run_snoc: "run self (steps @ [st]) = do_step (run self steps) st"
  by (simp add: run_def)

lemma first_green_phase:
  "k \<le> 299 \<Longrightarrow>
   light_timer (run (TrafficSimulation rate_h rate_v) (replicate k UpdateLights)) = real k / 10 \<and>
   light_state (run (TrafficSimulation rate_h rate_v) (replicate k UpdateLights)) =
     light_state (TrafficSimulation rate_h rate_v) \<and>
   current_green_duration (run (TrafficSimulation rate_h rate_v) (replicate k UpdateLights)) = 30"
proof (induction k)
  case 0
  then show ?case by (simp add: run_def TrafficSimulation_def)
next
  case (Suc k)
  then have IH:
    "light_timer (run (TrafficSimulation rate_h rate_v) (replicate k UpdateLights)) = real k / 10"
    "light_state (run (TrafficSimulation rate_h rate_v) (replicate k UpdateLights)) =
       light_state (TrafficSimulation rate_h rate_v)"
    "current_green_duration (run (TrafficSimulation rate_h rate_v) (replicate k UpdateLights)) = 30"
    by simp_all
  have "replicate (Suc k) UpdateLights = replicate k UpdateLights @ [UpdateLights]"
    by (simp add: replicate_append_same)
  then have r: "run (TrafficSimulation rate_h rate_v) (replicate (Suc k) UpdateLights) =
        update_lights (run (TrafficSimulation rate_h rate_v) (replicate k UpdateLights))"
    by (simp only: run_snoc do_step.simps)
  from Suc.prems have "real k / 10 + 1 / 10 < 30" by simp
  with IH show ?case
    unfolding r by (simp add: update_lights_def Let_def TrafficSimulation_def add_divide_distrib)
qed

lemma first_yellow:
  "light_state (run (TrafficSimulation rate_h rate_v) (replicate 300 UpdateLights)) Horizontal = YELLOW"
proof -
  have "replicate (Suc 299) UpdateLights = replicate 299 UpdateLights @ [UpdateLights]"
    by (simp only: replicate_append_same replicate_Suc)
  moreover have "Suc 299 = 300" by simp
  ultimately have "replicate 300 UpdateLights = replicate 299 UpdateLights @ [UpdateLights]"
    by (simp only:)
  then have r: "run (TrafficSimulation rate_h rate_v) (replicate 300 UpdateLights) =
        update_lights (run (TrafficSimulation rate_h rate_v) (replicate 299 UpdateLights))"
    by (simp only: run_snoc do_step.simps)
  show ?thesis using first_green_phase [of 299 rate_h rate_v]
    unfolding r by (simp add: update_lights_def Let_def TrafficSimulation_def)
qed

theorem lights_mutually_exclusive_witness:
  "exclusive (light_state (run (TrafficSimulation (1 / 20) (1 / 10)) (replicate 300 UpdateLights))) \<and>
   light_state (run (TrafficSimulation (1 / 20) (1 / 10)) (replicate 300 UpdateLights)) Horizontal = YELLOW \<and>
   light_state (run (TrafficSimulation (1 / 20) (1 / 10)) (replicate 300 UpdateLights)) Vertical = RED"
  using lights_mutually_exclusive [of "1 / 20" "1 / 10" "replicate 300 UpdateLights"]
    first_yellow [of "1 / 20" "1 / 10"]
  by (simp add: exclusive_def)

section \<open>The inputs of the controller at a green transition\<close>

lemma update_lights_becomes_green:
  assumes "light_state self dir \<noteq> GREEN" and "light_state (update_lights self) dir = GREEN"
  shows "\<exists>s. update_lights self = calculate_green_time s dir \<and> cars s = cars self \<and>
             stdout s = stdout self \<and> controller_h s = controller_h self \<and>
             controller_v s = controller_v self"
proof (cases dir)
  case Horizontal
  with assms show ?thesis
    by (auto simp add: update_lights_def Let_def split: if_splits)
next
  case Vertical
  with assms show ?thesis
    by (auto simp add: update_lights_def Let_def split: if_splits)
qed

text \<open>
  Claim C4. Whenever a call of \<^verbatim>\<open>update_lights\<close> turns a direction green, the new green
  duration is computed from exactly the vehicles of that direction whose
  \<^verbatim>\<open>passed_intersection\<close> is false. If there are none, the duration is the fixed
  default \<open>20\<close> and nothing is printed: the controller is not called. Otherwise the
  controller of that direction is called with density \<open>min(100, 10 * count)\<close> and the
  arithmetic mean of their waiting times, its result becomes the duration, and the report
  line of the call is printed.
\<close>

theorem green_time_at_transition:
  assumes "light_state self dir \<noteq> GREEN" and "light_state (update_lights self) dir = GREEN"
  shows "let direction_cars = filter (\<lambda>c. direction c = dir \<and> \<not> passed_intersection c) (cars self);
             ctrl = (if dir = Horizontal then controller_h self else controller_v self);
             density = min 100 (10 * real (length direction_cars));
             avg_wait = sum_list (map waiting_time direction_cars) / real (length direction_cars)
         in if direction_cars = []
            then current_green_duration (update_lights self) = 20 \<and>
                 stdout (update_lights self) = stdout self
            else current_green_duration (update_lights self) =
                   fst (compute_green_time ctrl density avg_wait) \<and>
                 stdout (update_lights self) =
                   stdout self @ map ControllerError (snd (compute_green_time ctrl density avg_wait)) @
                   [GreenReport dir (length direction_cars) density avg_wait
                      (fst (compute_green_time ctrl density avg_wait))]"
proof -
  from update_lights_becomes_green [OF assms] obtain s where
    s: "update_lights self = calculate_green_time s dir" "cars s = cars self"
       "stdout s = stdout self" "controller_h s = controller_h self"
       "controller_v s = controller_v self"
    by blast
  show ?thesis
    unfolding s(1) by (simp add: calculate_green_time_def Let_def s mult.commute)
qed

theorem green_time_at_transition_witness:
  "light_state (yellow_phase_end []) Vertical \<noteq> GREEN \<and>
   light_state (update_lights (yellow_phase_end [])) Vertical = GREEN \<and>
   current_green_duration (update_lights (yellow_phase_end [])) = 20 \<and>
   stdout (update_lights (yellow_phase_end [])) = stdout (yellow_phase_end []) \<and>
   light_state (yellow_phase_end four_cars) Vertical \<noteq> GREEN \<and>
   light_state (update_lights (yellow_phase_end four_cars)) Vertical = GREEN \<and>
   current_green_duration (update_lights (yellow_phase_end four_cars)) =
     fst (compute_green_time (TrafficLightController ''vertical'') 20 4)"
proof -
  have h1: "light_state (yellow_phase_end []) Vertical \<noteq> GREEN"
    by (simp add: yellow_phase_end_def)
  have h2: "light_state (update_lights (yellow_phase_end [])) Vertical = GREEN"
    by (simp add: yellow_phase_end_def update_lights_def Let_def TrafficSimulation_def)
  have h3: "light_state (yellow_phase_end four_cars) Vertical \<noteq> GREEN"
    by (simp add: yellow_phase_end_def)
  have h4: "light_state (update_lights (yellow_phase_end four_cars)) Vertical = GREEN"
    by (simp add: yellow_phase_end_def update_lights_def Let_def TrafficSimulation_def)
  have c: "controller_v (yellow_phase_end four_cars) = TrafficLightController ''vertical''"
    by (simp add: yellow_phase_end_def TrafficSimulation_def)
  have f: "filter (\<lambda>c. direction c = Vertical \<and> \<not> passed_intersection c)
             (cars (yellow_phase_end four_cars)) =
           [(Car North 0 Vertical (255, 100, 100) 10)\<lparr>waiting_time := 3\<rparr>,
            (Car South 1 Vertical (100, 255, 100) 20)\<lparr>waiting_time := 5\<rparr>]"
    by (simp add: yellow_phase_end_def four_cars_def Car_def set_initial_position_def)
  show ?thesis
    using h1 h2 h3 h4 green_time_at_transition [OF h1 h2] green_time_at_transition [OF h3 h4]
    by (simp add: Let_def c f) (simp add: yellow_phase_end_def)
qed

section \<open>Waiting time of a vehicle\<close>

lemma update_waiting_time:
  "waiting_time (update self lt others) =
     (if (should_stop_for_light self lt \<or> is_too_close_to_car_ahead self others) \<and>
         \<not> passed_intersection self \<and> \<not> is_in_intersection self
      then waiting_time self + 1 / 10 else waiting_time self)"
proof -
  have a: "should_stop_for_light (self\<lparr>passed_intersection := True\<rparr>) lt = should_stop_for_light self lt"
    by (simp add: should_stop_for_light_def get_stop_line_position_def Let_def)
  have b: "is_too_close_to_car_ahead (self\<lparr>passed_intersection := True\<rparr>) others =
           is_too_close_to_car_ahead self others"
  proof (induction others)
    case Nil
    show ?case by simp
  next
    case (Cons a others)
    show ?case unfolding is_too_close_to_car_ahead.simps Cons.IH by simp
  qed
  show ?thesis by (simp add: update_def Let_def a b)
qed

lemma update_passed:
  "passed_intersection (update self lt others) =
     (passed_intersection self \<or> is_in_intersection self)"
  by (auto simp add: update_def Let_def)

lemma update_speed_stopped:
  "waiting_time (update self lt others) \<noteq> waiting_time self \<Longrightarrow> speed (update self lt others) = 0"
  by (auto simp add: update_def Let_def split: if_splits)

lemma car_run_passed:
  "passed_intersection self \<Longrightarrow>
   passed_intersection (car_run self ticks) \<and> waiting_time (car_run self ticks) = waiting_time self"
proof (induction ticks arbitrary: self)
  case Nil
  then show ?case by simp
next
  case (Cons t ticks)
  obtain lt others where t: "t = (lt, others)" by (cases t)
  have p: "passed_intersection (update self lt others)"
    using Cons.prems by (simp add: update_passed)
  have w: "waiting_time (update self lt others) = waiting_time self"
    using Cons.prems by (simp add: update_waiting_time)
  from Cons.IH [OF p] show ?case by (simp add: t w)
qed

lemma car_run_mono: "waiting_time self \<le> waiting_time (car_run self ticks)"
proof (induction ticks arbitrary: self)
  case Nil
  then show ?case by simp
next
  case (Cons t ticks)
  obtain lt others where t: "t = (lt, others)" by (cases t)
  have "waiting_time self \<le> waiting_time (update self lt others)"
    by (simp add: update_waiting_time)
  also have "\<dots> \<le> waiting_time (car_run (update self lt others) ticks)" by (rule Cons.IH)
  finally show ?case by (simp add: t)
qed

text \<open>
  Claim C6. The waiting time of a vehicle never decreases, in one tick and over any number
  of ticks. In a tick it changes only by the tick duration \<open>0.1\<close>, and only when the
  vehicle is stopped (its speed is set to 0) and not marked as passed after the tick. In
  the tick in which \<^verbatim>\<open>passed_intersection\<close> becomes true, and in every later tick, the
  waiting time does not change; and once \<^verbatim>\<open>passed_intersection\<close> is true it stays
  true in every later tick.
\<close>

theorem waiting_time_accumulation:
  "waiting_time self \<le> waiting_time (update self lt others) \<and>
   (waiting_time (update self lt others) \<noteq> waiting_time self \<longrightarrow>
      waiting_time (update self lt others) = waiting_time self + 1 / 10 \<and>
      speed (update self lt others) = 0 \<and>
      \<not> passed_intersection (update self lt others)) \<and>
   (passed_intersection (update self lt others) \<longrightarrow>
      waiting_time (update self lt others) = waiting_time self) \<and>
   waiting_time self \<le> waiting_time (car_run self ticks) \<and>
   (passed_intersection self \<longrightarrow>
      passed_intersection (car_run self ticks) \<and>
      waiting_time (car_run self ticks) = waiting_time self)"
  using car_run_mono [of self ticks] car_run_passed [of self ticks]
    update_speed_stopped [of self lt others]
  by (auto simp add: update_waiting_time update_passed)

theorem waiting_time_accumulation_witness:
  "waiting_time (update car_at_stop_line RED []) \<noteq> waiting_time car_at_stop_line \<and>
   waiting_time (update car_at_stop_line RED []) = 1 / 10 \<and>
   speed (update car_at_stop_line RED []) = 0 \<and>
   \<not> passed_intersection (update car_at_stop_line RED []) \<and>
   waiting_time car_at_stop_line \<le> waiting_time (car_run car_at_stop_line [(RED, []), (YELLOW, [])]) \<and>
   passed_intersection car_passed \<and>
   passed_intersection (update car_passed RED []) \<and>
   waiting_time (update car_passed RED []) = 7 \<and>
   passed_intersection (car_run car_passed [(RED, []), (GREEN, [])]) \<and>
   waiting_time (car_run car_passed [(RED, []), (GREEN, [])]) = 7"
proof -
  have h1: "waiting_time (update car_at_stop_line RED []) \<noteq> waiting_time car_at_stop_line"
    by (simp add: update_def car_at_stop_line_def Car_def set_initial_position_def Let_def
        is_in_intersection_def should_stop_for_light_def get_stop_line_position_def
        MAX_SPEED_def STOP_LINE_OFFSET_def)
  have h2: "passed_intersection car_passed"
    by (simp add: car_passed_def)
  have h3: "passed_intersection (update car_passed RED [])"
    by (simp add: update_def car_passed_def Let_def)
  have w0: "waiting_time car_at_stop_line = 0" "waiting_time car_passed = 7"
    by (simp_all add: car_at_stop_line_def car_passed_def Car_def set_initial_position_def)
  show ?thesis
    using h1 h2 h3
      waiting_time_accumulation [of car_at_stop_line RED "[]" "[(RED, []), (YELLOW, [])]"]
      waiting_time_accumulation [of car_passed RED "[]" "[(RED, []), (GREEN, [])]"]
    by (simp add: w0)
qed

section \<open>Spawning\<close>

lemma is_spawn_blocked_iff:
  "is_spawn_blocked cs new_car =
     (\<exists>c\<in>set cs. direction c = direction new_car \<and>
        (if direction new_car = Horizontal then \<bar>x c - x new_car\<bar> else \<bar>y c - y new_car\<bar>)
          < MIN_SPACING * 2)"
  by (induction cs) (auto simp add: Let_def)

lemma direction_Car: "direction (Car la cid dir col off) = dir"
  by (simp add: Car_def split: prod.splits)

text \<open>
  Claim C10. One pass of the loop of \<^verbatim>\<open>generate_traffic\<close> appends the newly
  constructed vehicle exactly when the spawn draw succeeds, more than 500 ms have passed
  since the last spawn of the direction, and every existing vehicle of the same direction
  is at distance at least \<open>2 * MIN_SPACING = 80\<close> from the spawn position along the
  travel axis; otherwise the list of vehicles is unchanged. The check does not look at the
  lane: a westbound vehicle (lane west, negative speed) at the left edge blocks the spawn
  of an eastbound vehicle (lane east, positive speed).
\<close>

theorem spawn_only_if_clear:
  "cars (generate_traffic_for self current_time dir dr) =
     (if roll dr < spawn_rates self dir \<and> current_time - last_spawn self dir > 500 \<and>
         (\<forall>c\<in>set (cars self). direction c = dir \<longrightarrow>
            2 * MIN_SPACING \<le> (if dir = Horizontal then \<bar>x c - x (new_car_for self dir dr)\<bar>
                                else \<bar>y c - y (new_car_for self dir dr)\<bar>))
      then cars self @ [new_car_for self dir dr] else cars self) \<and>
   2 * MIN_SPACING = 80 \<and>
   lane westbound_near_left_edge = West \<and> max_speed westbound_near_left_edge < 0 \<and>
   lane (Car East 1 Horizontal (100, 255, 100) 0) = East \<and>
   max_speed (Car East 1 Horizontal (100, 255, 100) 0) > 0 \<and>
   is_spawn_blocked [westbound_near_left_edge] (Car East 1 Horizontal (100, 255, 100) 0)"
proof -
  have a: "cars (generate_traffic_for self current_time dir dr) =
     (if roll dr < spawn_rates self dir \<and> current_time - last_spawn self dir > 500 \<and>
         (\<forall>c\<in>set (cars self). direction c = dir \<longrightarrow>
            2 * MIN_SPACING \<le> (if dir = Horizontal then \<bar>x c - x (new_car_for self dir dr)\<bar>
                                else \<bar>y c - y (new_car_for self dir dr)\<bar>))
      then cars self @ [new_car_for self dir dr] else cars self)"
    unfolding generate_traffic_for_def Let_def new_car_for_def [symmetric]
    by (auto simp add: is_spawn_blocked_iff new_car_for_def direction_Car not_less mult.commute)
  have b: "is_spawn_blocked [westbound_near_left_edge] (Car East 1 Horizontal (100, 255, 100) 0)"
    by (simp add: westbound_near_left_edge_def Car_def set_initial_position_def MIN_SPACING_def Let_def)
  show ?thesis using a b
    by (simp add: MIN_SPACING_def westbound_near_left_edge_def Car_def set_initial_position_def MAX_SPEED_def)
qed

theorem spawn_only_if_clear_witness:
  "cars (generate_traffic_for (horizontal_green [westbound_near_left_edge]) 1000 Horizontal eastbound_draws) =
     [westbound_near_left_edge] \<and>
   cars (generate_traffic_for (horizontal_green []) 1000 Horizontal eastbound_draws) =
     [Car East 0 Horizontal (100, 255, 100) 0]"
  using spawn_only_if_clear [of "horizontal_green [westbound_near_left_edge]" 1000 Horizontal eastbound_draws]
    spawn_only_if_clear [of "horizontal_green []" 1000 Horizontal eastbound_draws]
  by (simp add: horizontal_green_def TrafficSimulation_def eastbound_draws_def new_car_for_def
      westbound_near_left_edge_def Car_def set_initial_position_def MIN_SPACING_def MAX_SPEED_def)

section \<open>The update of the vehicles within a tick\<close>

lemma update_cars_from_index:
  "k \<le> length cs \<Longrightarrow>
   update_cars_from ls updated (drop k cs) = foldl (live_step ls cs) updated [k..<length cs]"
proof (induction "length cs - k" arbitrary: k updated)
  case 0
  then show ?case by simp
next
  case (Suc n)
  then have lt: "k < length cs" by simp
  have d: "drop k cs = cs ! k # drop (Suc k) cs"
    using lt by (simp add: Cons_nth_drop_Suc)
  have u: "[k..<length cs] = k # [Suc k..<length cs]"
    using lt by (simp add: upt_conv_Cons)
  have n: "n = length cs - Suc k" using Suc.hyps(2) by simp
  have le: "Suc k \<le> length cs" using lt by simp
  note IH = Suc.hyps(1) [OF n le]
  have "update_cars_from ls updated (cs ! k # drop (Suc k) cs) =
        update_cars_from ls (live_step ls cs updated k) (drop (Suc k) cs)"
    by (simp add: Let_def live_step_def d)
  also have "\<dots> = foldl (live_step ls cs) (live_step ls cs updated k) [Suc k..<length cs]"
    by (rule IH)
  finally show ?case
    unfolding u foldl.simps by (simp only: d)
qed

lemmas two_cars =
  leader_def follower_def Car_def set_initial_position_def MAX_SPEED_def MIN_SPACING_def
  STOP_LINE_OFFSET_def update_def is_off_screen_def is_in_intersection_def
  should_stop_for_light_def get_stop_line_position_def Let_def

text \<open>
  Claim C5, as the code has it. Within one tick \<^verbatim>\<open>update_cars\<close> updates the
  vehicles one after the other, in the order of the list and in place, and the spacing
  check of the vehicle at position \<open>i\<close> reads the live list: the vehicles before
  position \<open>i\<close> at the positions they have after this tick's update (those removed as
  off screen are not seen at all), the vehicles from position \<open>i\<close> on at the positions
  they had before it.
\<close>

theorem update_cars_reads_live_list:
  "cars (update_cars self) =
     foldl (\<lambda>updated i.
              let c' = update (cars self ! i) (light_state self (direction (cars self ! i)))
                         (updated @ drop i (cars self))
              in if is_off_screen c' then updated else updated @ [c'])
       [] [0..<length (cars self)]"
proof -
  have "(\<lambda>updated i.
              let c' = update (cars self ! i) (light_state self (direction (cars self ! i)))
                         (updated @ drop i (cars self))
              in if is_off_screen c' then updated else updated @ [c']) =
        live_step (light_state self) (cars self)"
    by (intro ext) (simp add: live_step_def)
  then show ?thesis
    using update_cars_from_index [of 0 "cars self" "light_state self" "[]"]
    by (simp add: update_cars_def)
qed

theorem update_cars_reads_live_list_witness:
  "map x (cars (update_cars (horizontal_green [leader, follower]))) = [605 / 2, 527 / 2] \<and>
   map x (cars (update_cars (horizontal_green [follower, leader]))) = [261, 605 / 2]"
proof -
  have u: "[0..<length [leader, follower]] = [0, 1]" "[0..<length [follower, leader]] = [0, 1]"
    by (simp_all add: upt_rec)
  show ?thesis
    using update_cars_reads_live_list [of "horizontal_green [leader, follower]"]
      update_cars_reads_live_list [of "horizontal_green [follower, leader]"]
    by (simp add: horizontal_green_def TrafficSimulation_def u two_cars)
qed

text \<open>
  The claim as stated fails: with the leader first in the list, the follower (39 units
  behind, under the minimum spacing of 40) is checked against the leader's new position,
  41.5 units ahead, and moves, whereas against the positions before the tick it stops.
  With the follower first in the list it stops: the result depends on the order.
\<close>

theorem update_cars_snapshot_counterexample:
  "cars (update_cars (horizontal_green [leader, follower])) \<noteq>
     reference_update_cars (light_state (horizontal_green [leader, follower])) (cars (horizontal_green [leader, follower])) \<and>
   map x (cars (update_cars (horizontal_green [leader, follower]))) = [605 / 2, 527 / 2] \<and>
   map x (reference_update_cars (light_state (horizontal_green [leader, follower]))
            (cars (horizontal_green [leader, follower]))) = [605 / 2, 261] \<and>
   map x (cars (update_cars (horizontal_green [follower, leader]))) = [261, 605 / 2]"
proof -
  have a: "map x (cars (update_cars (horizontal_green [leader, follower]))) = [605 / 2, 527 / 2]"
    by (simp add: update_cars_def horizontal_green_def TrafficSimulation_def two_cars)
  have b: "map x (reference_update_cars (light_state (horizontal_green [leader, follower]))
            (cars (horizontal_green [leader, follower]))) = [605 / 2, 261]"
    by (simp add: reference_update_cars_def horizontal_green_def TrafficSimulation_def two_cars)
  have c: "map x (cars (update_cars (horizontal_green [follower, leader]))) = [261, 605 / 2]"
    by (simp add: update_cars_def horizontal_green_def TrafficSimulation_def two_cars)
  from a b have "map x (cars (update_cars (horizontal_green [leader, follower]))) \<noteq>
     map x (reference_update_cars (light_state (horizontal_green [leader, follower]))
            (cars (horizontal_green [leader, follower])))" by simp
  then have "cars (update_cars (horizontal_green [leader, follower])) \<noteq>
     reference_update_cars (light_state (horizontal_green [leader, follower])) (cars (horizontal_green [leader, follower]))"
    by metis
  with a b c show ?thesis by simp
qed

section \<open>The inference engine\<close>

lemma trapmf_range: "a \<le> b \<Longrightarrow> c \<le> d \<Longrightarrow> 0 \<le> trapmf v a b c d \<and> trapmf v a b c d \<le> 1"
  by (auto simp add: trapmf_def divide_le_eq_1 field_simps)

lemma density_mf_range: "0 \<le> density_mf dt v \<and> density_mf dt v \<le> 1"
  by (cases dt) (simp_all add: trimf_def trapmf_range)

lemma wait_mf_range: "0 \<le> wait_mf wt v \<and> wait_mf wt v \<le> 1"
  by (cases wt) (simp_all add: trimf_def trapmf_range)

lemma green_mf_range: "0 \<le> green_mf gt v \<and> green_mf gt v \<le> 1"
  by (cases gt) (simp_all add: trimf_def trapmf_range)

lemma green_universe_bounds: "u \<in> set green_universe \<Longrightarrow> 5 \<le> u \<and> u \<le> 90"
  by (auto simp add: green_universe_def)

lemma sum_universe_nonneg:
  fixes f :: "real \<Rightarrow> real"
  shows "(\<And>u. 0 \<le> f u) \<Longrightarrow> 0 \<le> (\<Sum>u\<leftarrow>green_universe. f u)"
  by (rule sum_list_nonneg) auto

lemma member_le_sum_list_real:
  fixes f :: "real \<Rightarrow> real"
  shows "(\<And>v. 0 \<le> f v) \<Longrightarrow> u0 \<in> set us \<Longrightarrow> f u0 \<le> sum_list (map f us)"
proof (induction us)
  case Nil
  then show ?case by simp
next
  case (Cons a us)
  have n: "0 \<le> sum_list (map f us)" by (rule sum_list_nonneg) (use Cons.prems(1) in auto)
  show ?case
  proof (cases "u0 = a")
    case True
    with n show ?thesis by simp
  next
    case False
    with Cons.prems have "u0 \<in> set us" by simp
    with Cons have "f u0 \<le> sum_list (map f us)" by blast
    moreover have "0 \<le> f a" by (rule Cons.prems(1))
    ultimately show ?thesis by simp
  qed
qed

lemma sum_universe_ge_member:
  fixes f :: "real \<Rightarrow> real"
  assumes "\<And>u. 0 \<le> f u" and "u0 \<in> set green_universe"
  shows "f u0 \<le> (\<Sum>u\<leftarrow>green_universe. f u)"
  using assms by (rule member_le_sum_list_real)

lemma centroid_ge:
  fixes f :: "real \<Rightarrow> real"
  assumes "0 < (\<Sum>u\<leftarrow>green_universe. f u)"
    and "0 \<le> (\<Sum>u\<leftarrow>green_universe. (u - c) * f u)"
  shows "c \<le> defuzz_centroid f"
proof -
  have "(\<Sum>u\<leftarrow>green_universe. (u - c) * f u) =
        (\<Sum>u\<leftarrow>green_universe. u * f u) - c * (\<Sum>u\<leftarrow>green_universe. f u)"
    by (simp add: left_diff_distrib sum_list_subtractf sum_list_const_mult)
  with assms(2) have "c * (\<Sum>u\<leftarrow>green_universe. f u) \<le> (\<Sum>u\<leftarrow>green_universe. u * f u)" by simp
  with assms(1) show ?thesis
    by (simp add: defuzz_centroid_def Let_def pos_le_divide_eq)
qed

lemma centroid_le:
  fixes f :: "real \<Rightarrow> real"
  assumes "0 < (\<Sum>u\<leftarrow>green_universe. f u)"
    and "(\<Sum>u\<leftarrow>green_universe. (u - c) * f u) \<le> 0"
  shows "defuzz_centroid f \<le> c"
proof -
  have "(\<Sum>u\<leftarrow>green_universe. (u - c) * f u) =
        (\<Sum>u\<leftarrow>green_universe. u * f u) - c * (\<Sum>u\<leftarrow>green_universe. f u)"
    by (simp add: left_diff_distrib sum_list_subtractf sum_list_const_mult)
  with assms(2) have "(\<Sum>u\<leftarrow>green_universe. u * f u) \<le> c * (\<Sum>u\<leftarrow>green_universe. f u)" by simp
  with assms(1) show ?thesis
    by (simp add: defuzz_centroid_def Let_def pos_divide_le_eq)
qed

lemma medium_symmetric:
  assumes "0 \<le> t"
  shows "(\<Sum>u\<leftarrow>green_universe. (u - 40) * min t (green_mf GreenMedium u)) = 0"
  using assms by (simp add: green_universe_def trimf_def trapmf_def)

lemma long_weight:
  "(\<Sum>u\<leftarrow>green_universe. if u < 45 then 0 else (u - 60) * s) = 345 * s"
  by (simp add: green_universe_def)

lemma term_strength_short:
  "term_strength d w GreenShort = max (min (density_mf DensityLow d) (wait_mf WaitShort w)) 0"
  by (simp add: term_strength_def fuzzy_rules_def)

lemma term_strength_medium:
  "term_strength d w GreenMedium =
     max (min (density_mf DensityLow d) (wait_mf WaitMedium w))
      (max (min (density_mf DensityLow d) (wait_mf WaitLong w))
        (max (min (density_mf DensityMedium d) (wait_mf WaitShort w))
          (max (min (density_mf DensityMedium d) (wait_mf WaitMedium w)) 0)))"
  by (simp add: term_strength_def fuzzy_rules_def)

lemma term_strength_long:
  "term_strength d w GreenLong =
     max (min (density_mf DensityMedium d) (wait_mf WaitLong w))
      (max (min (density_mf DensityHigh d) (wait_mf WaitShort w))
        (max (min (density_mf DensityHigh d) (wait_mf WaitMedium w))
          (max (min (density_mf DensityHigh d) (wait_mf WaitLong w)) 0)))"
  by (simp add: term_strength_def fuzzy_rules_def)

lemma aggregated_unfold:
  "aggregated d w u =
     max (min (term_strength d w GreenShort) (green_mf GreenShort u))
      (max (min (term_strength d w GreenMedium) (green_mf GreenMedium u))
        (max (min (term_strength d w GreenLong) (green_mf GreenLong u)) 0))"
  by (simp add: aggregated_def)

lemma aggregated_nonneg: "0 \<le> aggregated d w u"
  by (simp add: aggregated_unfold le_max_iff_disj)

lemma wait_cover:
  assumes "0 \<le> w" and "w \<le> 120"
  shows "0 < max (wait_mf WaitShort w) (max (wait_mf WaitMedium w) (wait_mf WaitLong w))"
  using assms by (auto simp add: trimf_def trapmf_def max_def not_less not_le)

lemma density_cover:
  assumes "0 \<le> d" and "d \<le> 100"
  shows "density_mf DensityLow d = 0 \<and> 0 < max (density_mf DensityMedium d) (density_mf DensityHigh d) \<or>
         0 < density_mf DensityLow d \<and> density_mf DensityHigh d = 0"
  using assms by (auto simp add: trimf_def trapmf_def max_def not_less not_le)

lemma in_green_universe: "90 \<in> set green_universe" "40 \<in> set green_universe" "5 \<in> set green_universe"
  by (simp_all add: green_universe_def)

lemma long_centroid:
  assumes "0 < s" and "s \<le> 1"
  shows "60 \<le> defuzz_centroid (\<lambda>u. min s (green_mf GreenLong u))"
proof (rule centroid_ge)
  have nn: "0 \<le> min s (green_mf GreenLong u)" for u
    using assms green_mf_range [of GreenLong u] by (simp del: green_mf.simps)
  have "min s (green_mf GreenLong 90) \<le> (\<Sum>u\<leftarrow>green_universe. min s (green_mf GreenLong u))"
    by (rule sum_universe_ge_member [where f = "\<lambda>u. min s (green_mf GreenLong u)"])
      (rule nn, rule in_green_universe)
  moreover have "min s (green_mf GreenLong 90) = s"
    using assms by (simp add: trapmf_def)
  ultimately show "0 < (\<Sum>u\<leftarrow>green_universe. min s (green_mf GreenLong u))"
    using assms by simp
next
  have "(\<Sum>u\<leftarrow>green_universe. if u < 45 then 0 else (u - 60) * s) \<le>
        (\<Sum>u\<leftarrow>green_universe. (u - 60) * min s (green_mf GreenLong u))"
  proof (rule sum_list_mono)
    fix u assume "u \<in> set green_universe"
    then have b: "5 \<le> u" "u \<le> 90" using green_universe_bounds by auto
    show "(if u < 45 then 0 else (u - 60) * s) \<le> (u - 60) * min s (green_mf GreenLong u)"
    proof (cases "u < 45")
      case True
      then show ?thesis using assms by (simp add: trapmf_def)
    next
      case False
      show ?thesis
      proof (cases "u < 60")
        case True
        have "min s (green_mf GreenLong u) \<le> s" by simp
        then have "(u - 60) * s \<le> (u - 60) * min s (green_mf GreenLong u)"
          using True by (intro mult_left_mono_neg) simp_all
        with False show ?thesis by simp
      next
        case ge: False
        then have "green_mf GreenLong u = 1" using b by (simp add: trapmf_def)
        with False assms show ?thesis by simp
      qed
    qed
  qed
  then show "0 \<le> (\<Sum>u\<leftarrow>green_universe. (u - 60) * min s (green_mf GreenLong u))"
    using assms by (simp add: long_weight)
qed

lemma compute_green_time_infer:
  "fst (compute_green_time (TrafficLightController lid) d w) =
     py_round1 (clip (infer (clip d 0 100) (clip w 0 120)) MIN_GREEN_TIME MAX_GREEN_TIME)"
  by (simp add: compute_green_time_def TrafficLightController_def setup_fuzzy_system_def Let_def)

lemma aggregated_high:
  assumes "density_mf DensityLow d = 0" and "density_mf DensityMedium d = 0"
    and "density_mf DensityHigh d = 1"
  shows "aggregated d w u =
     min (max (wait_mf WaitShort w) (max (wait_mf WaitMedium w) (wait_mf WaitLong w)))
         (green_mf GreenLong u)"
proof -
  note r = wait_mf_range [of WaitShort w] wait_mf_range [of WaitMedium w] wait_mf_range [of WaitLong w]
    green_mf_range [of GreenShort u] green_mf_range [of GreenMedium u] green_mf_range [of GreenLong u]
  have s: "term_strength d w GreenShort = 0"
    unfolding term_strength_short assms using r by (simp del: wait_mf.simps)
  have m: "term_strength d w GreenMedium = 0"
    unfolding term_strength_medium assms using r by (simp del: wait_mf.simps)
  have l: "term_strength d w GreenLong =
        max (wait_mf WaitShort w) (max (wait_mf WaitMedium w) (wait_mf WaitLong w))"
    unfolding term_strength_long assms using r by (simp del: wait_mf.simps add: max_def)
  show ?thesis
    unfolding aggregated_unfold s m l using r
    by (simp del: wait_mf.simps green_mf.simps add: min_def max_def)
qed

lemma saturated_at_85:
  "fst (compute_green_time (TrafficLightController lid) 85 w) = 60"
proof -
  define w' where "w' = clip w 0 120"
  have wb: "0 \<le> w'" "w' \<le> 120" by (simp_all add: w'_def clip_def)
  define s where "s = max (wait_mf WaitShort w') (max (wait_mf WaitMedium w') (wait_mf WaitLong w'))"
  have s0: "0 < s" unfolding s_def using wb by (rule wait_cover)
  have s1: "s \<le> 1"
    unfolding s_def
    using wait_mf_range [of WaitShort w'] wait_mf_range [of WaitMedium w'] wait_mf_range [of WaitLong w']
    by (simp del: wait_mf.simps)
  have "aggregated 85 w' = (\<lambda>u. min s (green_mf GreenLong u))"
    unfolding s_def by (intro ext, rule aggregated_high) (simp_all add: trapmf_def trimf_def)
  then have "infer 85 w' = defuzz_centroid (\<lambda>u. min s (green_mf GreenLong u))"
    by (simp add: infer_def)
  with long_centroid [OF s0 s1] have "60 \<le> infer 85 w'" by simp
  then have "py_round1 (clip (infer 85 w') MIN_GREEN_TIME MAX_GREEN_TIME) = 60"
    by (rule clamp_round_saturates)
  moreover have "clip 85 0 100 = (85::real)" by (simp add: clip_def)
  ultimately show ?thesis by (simp add: compute_green_time_infer w'_def)
qed

lemma aggregated_long_wait:
  assumes "wait_mf WaitShort w = 0" and "wait_mf WaitMedium w = 0" and "wait_mf WaitLong w = 1"
  shows "aggregated d w u =
     max (min (density_mf DensityLow d) (green_mf GreenMedium u))
         (min (max (density_mf DensityMedium d) (density_mf DensityHigh d)) (green_mf GreenLong u))"
proof -
  note r = density_mf_range [of DensityLow d] density_mf_range [of DensityMedium d]
    density_mf_range [of DensityHigh d]
    green_mf_range [of GreenShort u] green_mf_range [of GreenMedium u] green_mf_range [of GreenLong u]
  have s: "term_strength d w GreenShort = 0"
    unfolding term_strength_short assms using r by (simp del: density_mf.simps)
  have m: "term_strength d w GreenMedium = density_mf DensityLow d"
    unfolding term_strength_medium assms using r by (simp del: density_mf.simps add: max_def)
  have l: "term_strength d w GreenLong = max (density_mf DensityMedium d) (density_mf DensityHigh d)"
    unfolding term_strength_long assms using r by (simp del: density_mf.simps add: max_def)
  show ?thesis
    unfolding aggregated_unfold s m l using r
    by (simp del: density_mf.simps green_mf.simps add: min_def max_def)
qed

lemma aggregated_short_wait:
  assumes "wait_mf WaitShort w = 1" and "wait_mf WaitMedium w = 0" and "wait_mf WaitLong w = 0"
  shows "aggregated d w u =
     max (min (density_mf DensityLow d) (green_mf GreenShort u))
         (max (min (density_mf DensityMedium d) (green_mf GreenMedium u))
              (min (density_mf DensityHigh d) (green_mf GreenLong u)))"
proof -
  note r = density_mf_range [of DensityLow d] density_mf_range [of DensityMedium d]
    density_mf_range [of DensityHigh d]
    green_mf_range [of GreenShort u] green_mf_range [of GreenMedium u] green_mf_range [of GreenLong u]
  have s: "term_strength d w GreenShort = density_mf DensityLow d"
    unfolding term_strength_short assms using r by (simp del: density_mf.simps)
  have m: "term_strength d w GreenMedium = density_mf DensityMedium d"
    unfolding term_strength_medium assms using r by (simp del: density_mf.simps add: max_def)
  have l: "term_strength d w GreenLong = density_mf DensityHigh d"
    unfolding term_strength_long assms using r by (simp del: density_mf.simps add: max_def)
  show ?thesis
    unfolding aggregated_unfold s m l using r
    by (simp del: density_mf.simps green_mf.simps add: min_def max_def)
qed

lemma centroid_medium_long:
  assumes "0 < l" and "l \<le> 1" and "0 \<le> m"
  shows "40 \<le> defuzz_centroid (\<lambda>u. max (min l (green_mf GreenMedium u)) (min m (green_mf GreenLong u)))"
proof (rule centroid_ge)
  let ?f = "\<lambda>u. max (min l (green_mf GreenMedium u)) (min m (green_mf GreenLong u))"
  have nn: "0 \<le> ?f u" for u
    using assms green_mf_range [of GreenMedium u]
    by (simp del: green_mf.simps add: le_max_iff_disj)
  have "0 < l" by fact
  also have "l \<le> ?f 40" using assms by (simp add: trimf_def trapmf_def)
  also have "?f 40 \<le> (\<Sum>u\<leftarrow>green_universe. ?f u)"
    by (rule sum_universe_ge_member [where f = ?f]) (rule nn, rule in_green_universe)
  finally show "0 < (\<Sum>u\<leftarrow>green_universe. ?f u)" .
next
  let ?f = "\<lambda>u. max (min l (green_mf GreenMedium u)) (min m (green_mf GreenLong u))"
  have "(\<Sum>u\<leftarrow>green_universe. (u - 40) * min l (green_mf GreenMedium u)) \<le>
        (\<Sum>u\<leftarrow>green_universe. (u - 40) * ?f u)"
  proof (rule sum_list_mono)
    fix u :: real assume "u \<in> set green_universe"
    show "(u - 40) * min l (green_mf GreenMedium u) \<le> (u - 40) * ?f u"
    proof (cases "u < 40")
      case True
      then have "green_mf GreenLong u = 0" by (simp add: trapmf_def)
      then have "?f u = min l (green_mf GreenMedium u)"
        using assms green_mf_range [of GreenMedium u]
        by (simp del: green_mf.simps add: min_def max_def)
      then show ?thesis by simp
    next
      case False
      then show ?thesis by (intro mult_left_mono) simp_all
    qed
  qed
  then show "0 \<le> (\<Sum>u\<leftarrow>green_universe. (u - 40) * ?f u)"
    using assms by (simp add: medium_symmetric del: green_mf.simps)
qed

lemma centroid_short_medium:
  assumes "0 < l" and "l \<le> 1" and "0 \<le> m"
  shows "defuzz_centroid (\<lambda>u. max (min l (green_mf GreenShort u)) (min m (green_mf GreenMedium u))) \<le> 40"
proof (rule centroid_le)
  let ?f = "\<lambda>u. max (min l (green_mf GreenShort u)) (min m (green_mf GreenMedium u))"
  have nn: "0 \<le> ?f u" for u
    using assms green_mf_range [of GreenShort u]
    by (simp del: green_mf.simps add: le_max_iff_disj)
  have "0 < l" by fact
  also have "l \<le> ?f 5" using assms by (simp add: trimf_def trapmf_def)
  also have "?f 5 \<le> (\<Sum>u\<leftarrow>green_universe. ?f u)"
    by (rule sum_universe_ge_member [where f = ?f]) (rule nn, rule in_green_universe)
  finally show "0 < (\<Sum>u\<leftarrow>green_universe. ?f u)" .
next
  let ?f = "\<lambda>u. max (min l (green_mf GreenShort u)) (min m (green_mf GreenMedium u))"
  have "(\<Sum>u\<leftarrow>green_universe. (u - 40) * ?f u) \<le>
        (\<Sum>u\<leftarrow>green_universe. (u - 40) * min m (green_mf GreenMedium u))"
  proof (rule sum_list_mono)
    fix u :: real assume "u \<in> set green_universe"
    show "(u - 40) * ?f u \<le> (u - 40) * min m (green_mf GreenMedium u)"
    proof (cases "u < 40")
      case True
      then show ?thesis by (intro mult_left_mono_neg) simp_all
    next
      case False
      then have "green_mf GreenShort u = 0" by (simp add: trapmf_def)
      then have "?f u = min m (green_mf GreenMedium u)"
        using assms green_mf_range [of GreenMedium u]
        by (simp del: green_mf.simps add: min_def max_def)
      then show ?thesis by simp
    qed
  qed
  then show "(\<Sum>u\<leftarrow>green_universe. (u - 40) * ?f u) \<le> 0"
    using assms by (simp add: medium_symmetric del: green_mf.simps)
qed

lemma wait_95_beats_25:
  "fst (compute_green_time (TrafficLightController lid) d 25) \<le>
   fst (compute_green_time (TrafficLightController lid) d 95)"
proof -
  define d' where "d' = clip d 0 100"
  define l where "l = density_mf DensityLow d'"
  define m where "m = density_mf DensityMedium d'"
  define h where "h = density_mf DensityHigh d'"
  have db: "0 \<le> d'" "d' \<le> 100" by (simp_all add: d'_def clip_def)
  have r: "0 \<le> l" "l \<le> 1" "0 \<le> m" "m \<le> 1" "0 \<le> h" "h \<le> 1"
    unfolding l_def m_def h_def
    using density_mf_range [of DensityLow d'] density_mf_range [of DensityMedium d']
      density_mf_range [of DensityHigh d']
    by simp_all
  have a95: "aggregated d' 95 =
      (\<lambda>u. max (min l (green_mf GreenMedium u)) (min (max m h) (green_mf GreenLong u)))"
    unfolding l_def m_def h_def
    by (intro ext, rule aggregated_long_wait) (simp_all add: trapmf_def trimf_def)
  have a25: "aggregated d' 25 =
      (\<lambda>u. max (min l (green_mf GreenShort u))
              (max (min m (green_mf GreenMedium u)) (min h (green_mf GreenLong u))))"
    unfolding l_def m_def h_def
    by (intro ext, rule aggregated_short_wait) (simp_all add: trapmf_def trimf_def)
  have c: "clip 25 0 120 = (25::real)" "clip 95 0 120 = (95::real)" by (simp_all add: clip_def)
  from density_cover [OF db]
  consider (none) "l = 0" "0 < max m h" | (some) "0 < l" "h = 0"
    unfolding l_def m_def h_def by blast
  then show ?thesis
  proof cases
    case none
    have "aggregated d' 95 = (\<lambda>u. min (max m h) (green_mf GreenLong u))"
    proof
      fix u
      show "aggregated d' 95 u = min (max m h) (green_mf GreenLong u)"
        unfolding a95 using none r green_mf_range [of GreenMedium u] green_mf_range [of GreenLong u]
        by (simp del: green_mf.simps add: min_def max_def)
    qed
    then have "infer d' 95 = defuzz_centroid (\<lambda>u. min (max m h) (green_mf GreenLong u))"
      by (simp add: infer_def)
    moreover have "max m h \<le> 1" using r by simp
    ultimately have "60 \<le> infer d' 95" using long_centroid [OF none(2)] by simp
    then have "py_round1 (clip (infer d' 95) MIN_GREEN_TIME MAX_GREEN_TIME) = 60"
      by (rule clamp_round_saturates)
    with clamp_round_bounds [of "infer d' 25"] show ?thesis
      by (simp add: compute_green_time_infer c d'_def)
  next
    case some
    have "aggregated d' 95 = (\<lambda>u. max (min l (green_mf GreenMedium u)) (min m (green_mf GreenLong u)))"
      unfolding a95 using some r by simp
    then have "infer d' 95 =
        defuzz_centroid (\<lambda>u. max (min l (green_mf GreenMedium u)) (min m (green_mf GreenLong u)))"
      by (simp add: infer_def)
    with centroid_medium_long [OF some(1) r(2) r(3)] have hi: "40 \<le> infer d' 95" by simp
    have "aggregated d' 25 = (\<lambda>u. max (min l (green_mf GreenShort u)) (min m (green_mf GreenMedium u)))"
    proof
      fix u
      show "aggregated d' 25 u = max (min l (green_mf GreenShort u)) (min m (green_mf GreenMedium u))"
        unfolding a25 using some r green_mf_range [of GreenMedium u] green_mf_range [of GreenLong u]
        by (simp del: green_mf.simps add: min_def max_def)
    qed
    then have "infer d' 25 =
        defuzz_centroid (\<lambda>u. max (min l (green_mf GreenShort u)) (min m (green_mf GreenMedium u)))"
      by (simp add: infer_def)
    with centroid_short_medium [OF some(1) r(2) r(3)] have lo: "infer d' 25 \<le> 40" by simp
    from lo hi have "infer d' 25 \<le> infer d' 95" by simp
    then have "py_round1 (clip (infer d' 25) MIN_GREEN_TIME MAX_GREEN_TIME) \<le>
               py_round1 (clip (infer d' 95) MIN_GREEN_TIME MAX_GREEN_TIME)"
      by (rule clamp_round_mono)
    then show ?thesis by (simp add: compute_green_time_infer c d'_def)
  qed
qed

text \<open>
  Claim C7. With the inference engine as the specification describes it, for every wait
  value (inside or outside \<open>[0,120]\<close>, since it is clamped) the green time at density
  85 is at least the green time at density 20, and for every density value the green time
  at wait 95 is at least the green time at wait 25.
\<close>

theorem monotonic_tendency:
  "fst (compute_green_time (TrafficLightController lid) 20 wait_time) \<le>
     fst (compute_green_time (TrafficLightController lid) 85 wait_time) \<and>
   fst (compute_green_time (TrafficLightController lid) density 25) \<le>
     fst (compute_green_time (TrafficLightController lid) density 95)"
proof -
  have "fst (compute_green_time (TrafficLightController lid) 20 wait_time) \<le> 60"
    using clamp_round_bounds [of "infer (clip 20 0 100) (clip wait_time 0 120)"]
    by (simp add: compute_green_time_infer)
  then show ?thesis by (simp add: saturated_at_85 wait_95_beats_25)
qed

lemma foldr_max_ge:
  fixes vs :: "real list"
  shows "v \<in> set vs \<Longrightarrow> v \<le> foldr max vs 0"
  by (induction vs) (auto simp add: le_max_iff_disj)

lemma term_strength_ge:
  assumes "(dt, wt, gt) \<in> set fuzzy_rules"
  shows "min (density_mf dt d) (wait_mf wt w) \<le> term_strength d w gt"
proof -
  have "rule_strength d w (dt, wt, gt) \<in>
        set (map (rule_strength d w) (filter (\<lambda>r. snd (snd r) = gt) fuzzy_rules))"
    using assms by (simp del: rule_strength.simps)
  then have "rule_strength d w (dt, wt, gt) \<le> term_strength d w gt"
    unfolding term_strength_def by (rule foldr_max_ge)
  then show ?thesis by simp
qed

lemma rule_base_total: "\<exists>gt. (dt, wt, gt) \<in> set fuzzy_rules"
  by (cases dt; cases wt) (simp_all add: fuzzy_rules_def)

lemma green_peak: "\<exists>u\<in>set green_universe. green_mf gt u = 1"
proof (cases gt)
  case GreenShort
  have "green_mf GreenShort 5 = 1" by (simp add: trapmf_def)
  with GreenShort in_green_universe(3) show ?thesis by blast
next
  case GreenMedium
  have "green_mf GreenMedium 40 = 1" by (simp add: trapmf_def trimf_def)
  with GreenMedium in_green_universe(2) show ?thesis by blast
next
  case GreenLong
  have "green_mf GreenLong 90 = 1" by (simp add: trapmf_def)
  with GreenLong in_green_universe(1) show ?thesis by blast
qed

lemma density_fires:
  assumes "0 \<le> d" and "d \<le> 100"
  shows "\<exists>dt. 0 < density_mf dt d"
proof -
  from density_cover [OF assms]
  have "0 < density_mf DensityLow d \<or> 0 < density_mf DensityMedium d \<or> 0 < density_mf DensityHigh d"
    by (auto simp del: density_mf.simps simp add: less_max_iff_disj)
  then show ?thesis by blast
qed

lemma wait_fires:
  assumes "0 \<le> w" and "w \<le> 120"
  shows "\<exists>wt. 0 < wait_mf wt w"
proof -
  from wait_cover [OF assms]
  have "0 < wait_mf WaitShort w \<or> 0 < wait_mf WaitMedium w \<or> 0 < wait_mf WaitLong w"
    by (auto simp del: wait_mf.simps simp add: less_max_iff_disj)
  then show ?thesis by blast
qed

lemma aggregated_ge_term:
  "min (term_strength d w gt) (green_mf gt u) \<le> aggregated d w u"
  by (cases gt) (simp_all add: aggregated_unfold le_max_iff_disj del: green_mf.simps)

lemma some_rule_fires:
  "0 < (\<Sum>u\<leftarrow>green_universe. aggregated (clip d 0 100) (clip w 0 120) u)"
proof -
  define d' where "d' = clip d 0 100"
  define w' where "w' = clip w 0 120"
  have b: "0 \<le> d'" "d' \<le> 100" "0 \<le> w'" "w' \<le> 120"
    by (simp_all add: d'_def w'_def clip_def)
  from density_fires [OF b(1,2)] obtain dt where dt: "0 < density_mf dt d'" by blast
  from wait_fires [OF b(3,4)] obtain wt where wt: "0 < wait_mf wt w'" by blast
  from rule_base_total obtain gt where gt: "(dt, wt, gt) \<in> set fuzzy_rules" by blast
  from green_peak obtain u where u: "u \<in> set green_universe" "green_mf gt u = 1" by blast
  have "0 < min (density_mf dt d') (wait_mf wt w')" using dt wt by simp
  also have "\<dots> \<le> term_strength d' w' gt" using gt by (rule term_strength_ge)
  finally have ts: "0 < term_strength d' w' gt" .
  then have "0 < min (term_strength d' w' gt) (green_mf gt u)" using u(2) by simp
  also have "\<dots> \<le> aggregated d' w' u" by (rule aggregated_ge_term)
  also have "\<dots> \<le> (\<Sum>u\<leftarrow>green_universe. aggregated d' w' u)"
    by (rule sum_universe_ge_member [where f = "aggregated d' w'"]) (rule aggregated_nonneg, rule u(1))
  finally show ?thesis by (simp add: d'_def w'_def)
qed

text \<open>
  Claim C3. In the centroid defuzzification as the specification describes it, when the
  aggregated output curve sums to zero over the green universe, the result is the midpoint
  of the green universe \<open>[5, 90]\<close>, that is \<open>47.5\<close>; in particular this is then
  the result of the inference. (By \<open>some_rule_fires\<close> the sum is never zero on the
  inputs that \<^verbatim>\<open>compute_green_time\<close> passes on after clamping them.)
\<close>

theorem zero_denominator_midpoint:
  assumes "(\<Sum>u\<leftarrow>green_universe. mfx u) = 0"
  shows "defuzz_centroid mfx = (hd green_universe + last green_universe) / 2 \<and>
         defuzz_centroid mfx = 95 / 2 \<and>
         (mfx = aggregated density wait_time \<longrightarrow> infer density wait_time = 95 / 2)"
proof -
  have "hd green_universe = 5" by (simp add: green_universe_def upto.simps)
  moreover have "last green_universe = 90"
    by (simp add: green_universe_def)
  moreover have "defuzz_centroid mfx = 95 / 2"
    using assms by (simp add: defuzz_centroid_def)
  ultimately show ?thesis by (auto simp add: infer_def)
qed

lemma aggregated_out_of_domain: "aggregated 200 w u = 0"
proof -
  note r = wait_mf_range [of WaitShort w] wait_mf_range [of WaitMedium w] wait_mf_range [of WaitLong w]
    green_mf_range [of GreenShort u] green_mf_range [of GreenMedium u] green_mf_range [of GreenLong u]
  have d: "density_mf DensityLow 200 = 0" "density_mf DensityMedium 200 = 0"
    "density_mf DensityHigh 200 = 0"
    by (simp_all add: trapmf_def trimf_def)
  have "term_strength 200 w gt = 0" for gt
    using r
    by (cases gt)
      (simp_all add: term_strength_short term_strength_medium term_strength_long d
        del: density_mf.simps wait_mf.simps)
  then show ?thesis
    unfolding aggregated_unfold using r by (simp del: green_mf.simps)
qed

theorem zero_denominator_midpoint_witness:
  "(\<Sum>u\<leftarrow>green_universe. aggregated 200 50 u) = 0 \<and>
   defuzz_centroid (aggregated 200 50) = 95 / 2 \<and>
   infer 200 50 = 95 / 2"
proof -
  have h: "(\<Sum>u\<leftarrow>green_universe. aggregated 200 50 u) = 0"
    by (simp add: aggregated_out_of_domain)
  show ?thesis
    using h zero_denominator_midpoint [OF h, of 200 50] by simp
qed

theorem monotonic_tendency_witness:
  "fst (compute_green_time (TrafficLightController ''demo'') 20 25) = 164 / 10 \<and>
   fst (compute_green_time (TrafficLightController ''demo'') 85 25) = 60 \<and>
   fst (compute_green_time (TrafficLightController ''demo'') 20 95) = 40"
  using monotonic_tendency [of "''demo''" 25 20] monotonic_tendency [of "''demo''" 95 20]
  by (simp add: compute_green_time_infer infer_def defuzz_centroid_def aggregated_def
      term_strength_def fuzzy_rules_def green_universe_def trapmf_def trimf_def clip_def
      MIN_GREEN_TIME_def MAX_GREEN_TIME_def py_round1_def round_half_even_def Let_def)

end
